theory Spec2Isabelle
  imports Main
begin

section \<open>JavaScript values\<close>

text \<open>
  \<^verbatim>\<open>parseAWSExports\<close> takes a \<^verbatim>\<open>Record<string, any>\<close>: at run time any JavaScript
  value may sit in any field, and the function reads the fields without checking what
  they are. So the model is untyped, as the program is. Configuration values are data:
  \<^verbatim>\<open>undefined\<close>, \<^verbatim>\<open>null\<close>, booleans, numbers, strings, arrays and plain objects.
  \<^item> Numbers are the integers: the program only tests a number for being zero and compares
    a length with zero. A number is printed in decimal digits, as the runtime prints the
    integers of up to 21 digits.
  \<^item> A string is a list of code units. The characters below 128 are the ASCII code units.
    The other 128 characters stand for code units outside ASCII; which ones is left open,
    and so is what the case mappings of the runtime make of a string that has one of
    them.
  \<^item> An object is the list of its own properties, each key once, in the order they were
    written. (The runtime lists the keys that are array indices first; no statement
    below is about the order of keys.)
  \<^item> Functions are no data. A method call on a value succeeds only where the prototype of
    the value supplies the method, on strings and arrays; on anything else it is a call
    of something that is no function.
  \<^item> \<open>JNative k\<close> is the built-in member \<open>k\<close> of \<^verbatim>\<open>Object.prototype\<close>, which a property read
    on a plain object reaches when the object has no own property \<open>k\<close>. It is never part
    of a configuration.
\<close>

datatype jsval =
    JUndefined
  | JNull
  | JBool bool
  | JNum int
  | JStr string
  | JArr "jsval list"
  | JObj "(string \<times> jsval) list"
  | JNative string

type_synonym obj = "(string \<times> jsval) list"

text \<open>
  The two things the function throws: the \<^verbatim>\<open>AmplifyError\<close> it constructs itself (name,
  message, recovery suggestion) and the \<^verbatim>\<open>TypeError\<close> of the runtime (a property read on
  \<^verbatim>\<open>undefined\<close> or \<^verbatim>\<open>null\<close>, a call of something that is no function, a spread of
  something that is not iterable, an object without a primitive value).
\<close>

datatype error =
    AmplifyError (name: string) (message: string) (recoverySuggestion: string)
  | TypeError

definition bindE :: "error + 'a \<Rightarrow> ('a \<Rightarrow> error + 'b) \<Rightarrow> error + 'b" where
  "bindE m f = (case m of Inl e \<Rightarrow> Inl e | Inr a \<Rightarrow> f a)"

fun sequenceE :: "(error + 'a) list \<Rightarrow> error + 'a list" where
  "sequenceE [] = Inr []"
| "sequenceE (m # ms) = bindE m (\<lambda>a. bindE (sequenceE ms) (\<lambda>as. Inr (a # as)))"

fun truthy :: "jsval \<Rightarrow> bool" where
  "truthy JUndefined = False"
| "truthy JNull = False"
| "truthy (JBool b) = b"
| "truthy (JNum n) = (n \<noteq> 0)"
| "truthy (JStr s) = (s \<noteq> [])"
| "truthy (JArr xs) = True"
| "truthy (JObj kvs) = True"
| "truthy (JNative k) = True"

fun nullish :: "jsval \<Rightarrow> bool" where
  "nullish JUndefined = True"
| "nullish JNull = True"
| "nullish v = False"

subsection \<open>Strings\<close>

text \<open>
  What the runtime decides and the model leaves open:
  \<^item> \<open>positive s\<close>: the number that the string \<open>s\<close> is read as (a floating-point parse) is
    above zero;
  \<^item> \<open>lower_case s\<close> and \<open>upper_case s\<close>: \<^verbatim>\<open>s.toLowerCase()\<close> and \<^verbatim>\<open>s.toUpperCase()\<close> for a
    string \<open>s\<close> with a code unit outside ASCII. These follow the Unicode case mappings, which
    may change the length of a string and depend on the neighbouring code units.

  Every statement below holds for whatever the runtime decides.
\<close>

record runtime =
  positive :: "string \<Rightarrow> bool"
  lower_case :: "string \<Rightarrow> string"
  upper_case :: "string \<Rightarrow> string"

definition is_ascii :: "char \<Rightarrow> bool" where
  "is_ascii c = (of_char c < (128 :: nat))"

definition upper_letters :: string where
  "upper_letters = ''ABCDEFGHIJKLMNOPQRSTUVWXYZ''"

definition lower_letters :: string where
  "lower_letters = ''abcdefghijklmnopqrstuvwxyz''"

definition to_lower_char :: "char \<Rightarrow> char" where
  "to_lower_char c = (case map_of (zip upper_letters lower_letters) c of Some d \<Rightarrow> d | None \<Rightarrow> c)"

definition to_upper_char :: "char \<Rightarrow> char" where
  "to_upper_char c = (case map_of (zip lower_letters upper_letters) c of Some d \<Rightarrow> d | None \<Rightarrow> c)"

text \<open>
  \<^verbatim>\<open>s.toLowerCase()\<close> and \<^verbatim>\<open>s.toUpperCase()\<close>: on a string of ASCII code units the letters
  \<^verbatim>\<open>A\<close> to \<^verbatim>\<open>Z\<close> and \<^verbatim>\<open>a\<close> to \<^verbatim>\<open>z\<close> are exchanged, one by one, and nothing else changes; on
  any other string the result is the runtime's.
\<close>

definition toLowerCase :: "runtime \<Rightarrow> string \<Rightarrow> string" where
  "toLowerCase rt s = (if list_all is_ascii s then map to_lower_char s else lower_case rt s)"

definition toUpperCase :: "runtime \<Rightarrow> string \<Rightarrow> string" where
  "toUpperCase rt s = (if list_all is_ascii s then map to_upper_char s else upper_case rt s)"

text \<open>\<^verbatim>\<open>s.charAt(0)\<close>: the first code unit as a string, the empty string when there is none.\<close>

definition charAt0 :: "string \<Rightarrow> string" where
  "charAt0 s = take 1 s"

text \<open>\<^verbatim>\<open>s.slice(1)\<close>\<close>

definition slice1 :: "string \<Rightarrow> string" where
  "slice1 s = drop 1 s"

text \<open>
  \<^verbatim>\<open>s.split(',')\<close>: the pieces between the commas, empty pieces kept; a string without
  a comma (the empty string too) is its own single piece.
\<close>

fun split_comma :: "string \<Rightarrow> string list" where
  "split_comma [] = [[]]"
| "split_comma (c # cs) =
     (if c = CHR '','' then [] # split_comma cs
      else (case split_comma cs of p # ps \<Rightarrow> (c # p) # ps | [] \<Rightarrow> [[c]]))"

text \<open>\<^verbatim>\<open>xs.join(',')\<close> on strings.\<close>

fun join_comma :: "string list \<Rightarrow> string" where
  "join_comma [] = []"
| "join_comma [s] = s"
| "join_comma (s # t # ts) = s @ CHR '','' # join_comma (t # ts)"

fun starts_with :: "string \<Rightarrow> string \<Rightarrow> bool" where
  "starts_with s [] = True"
| "starts_with [] (p # ps) = False"
| "starts_with (c # cs) (p # ps) = (c = p \<and> starts_with cs ps)"

text \<open>\<^verbatim>\<open>s.includes(p)\<close> on a string: \<open>p\<close> occurs in \<open>s\<close> as a substring.\<close>

fun includes_str :: "string \<Rightarrow> string \<Rightarrow> bool" where
  "includes_str [] p = (p = [])"
| "includes_str (c # cs) p = (starts_with (c # cs) p \<or> includes_str cs p)"

definition digit_chars :: string where
  "digit_chars = ''0123456789''"

fun show_nat :: "nat \<Rightarrow> string" where
  "show_nat n = (if n < 10 then [digit_chars ! n] else show_nat (n div 10) @ [digit_chars ! (n mod 10)])"

declare show_nat.simps [simp del]

definition show_int :: "int \<Rightarrow> string" where
  "show_int i = (if i < 0 then CHR ''-'' # show_nat (nat (- i)) else show_nat (nat i))"

subsection \<open>Conversions and property access\<close>

text \<open>
  \<^verbatim>\<open>ToString\<close>, which also makes the property key of a computed member. An array joins
  its elements with commas, \<^verbatim>\<open>undefined\<close> and \<^verbatim>\<open>null\<close> elements as empty pieces. A plain
  object is \<^verbatim>\<open>[object Object]\<close> by the inherited \<^verbatim>\<open>toString\<close>; an own data property
  \<^verbatim>\<open>toString\<close> hides that method and is not callable, and then the conversion throws.
\<close>

fun to_string :: "jsval \<Rightarrow> error + string" where
  "to_string JUndefined = Inr ''undefined''"
| "to_string JNull = Inr ''null''"
| "to_string (JBool b) = Inr (if b then ''true'' else ''false'')"
| "to_string (JNum n) = Inr (show_int n)"
| "to_string (JStr s) = Inr s"
| "to_string (JArr xs) =
     bindE (sequenceE (map (\<lambda>x. if nullish x then Inr [] else to_string x) xs))
       (\<lambda>ss. Inr (join_comma ss))"
| "to_string (JObj kvs) =
     (if ''toString'' \<in> fst ` set kvs then Inl TypeError else Inr ''[object Object]'')"
| "to_string (JNative k) = Inr (''function '' @ k @ ''() { [native code] }'')"

definition object_prototype :: "string list" where
  "object_prototype =
     [''constructor'', ''__defineGetter__'', ''__defineSetter__'', ''hasOwnProperty'',
      ''__lookupGetter__'', ''__lookupSetter__'', ''isPrototypeOf'', ''propertyIsEnumerable'',
      ''toString'', ''valueOf'', ''__proto__'', ''toLocaleString'']"

text \<open>
  \<^verbatim>\<open>o[k]\<close> on a plain object: the own property, else what \<^verbatim>\<open>Object.prototype\<close> has
  under that name, else \<^verbatim>\<open>undefined\<close>.
\<close>

definition obj_get :: "obj \<Rightarrow> string \<Rightarrow> jsval" where
  "obj_get kvs k =
     (case map_of kvs k of
        Some v \<Rightarrow> v
      | None \<Rightarrow> if k \<in> set object_prototype then JNative k else JUndefined)"

text \<open>
  \<^verbatim>\<open>v.k\<close> for a value \<open>v\<close> that is neither \<^verbatim>\<open>undefined\<close> nor \<^verbatim>\<open>null\<close>. On strings and
  arrays the program reads \<^verbatim>\<open>length\<close> and names that no string or array has; none of
  the names it reads is an index or a method.
\<close>

fun prop_of :: "jsval \<Rightarrow> string \<Rightarrow> jsval" where
  "prop_of (JObj kvs) k = obj_get kvs k"
| "prop_of (JArr xs) k = (if k = ''length'' then JNum (int (length xs)) else JUndefined)"
| "prop_of (JStr s) k = (if k = ''length'' then JNum (int (length s)) else JUndefined)"
| "prop_of v k = JUndefined"

text \<open>\<^verbatim>\<open>v.k\<close> and the destructuring \<^verbatim>\<open>const { k } = v\<close>: a \<^verbatim>\<open>TypeError\<close> on \<^verbatim>\<open>undefined\<close> and \<^verbatim>\<open>null\<close>.\<close>

definition get :: "jsval \<Rightarrow> string \<Rightarrow> error + jsval" where
  "get v k = (if nullish v then Inl TypeError else Inr (prop_of v k))"

text \<open>\<^verbatim>\<open>v?.k\<close>\<close>

definition opt_get :: "jsval \<Rightarrow> string \<Rightarrow> jsval" where
  "opt_get v k = (if nullish v then JUndefined else prop_of v k)"

text \<open>\<^verbatim>\<open>Object.keys(v)\<close> for a value that is neither \<^verbatim>\<open>undefined\<close> nor \<^verbatim>\<open>null\<close>.\<close>

fun object_keys :: "jsval \<Rightarrow> string list" where
  "object_keys (JObj kvs) = map fst kvs"
| "object_keys (JArr xs) = map show_nat [0..<length xs]"
| "object_keys (JStr s) = map show_nat [0..<length s]"
| "object_keys v = []"

text \<open>\<^verbatim>\<open>Object.prototype.hasOwnProperty.call(v, k)\<close>\<close>

fun hasOwnProperty :: "jsval \<Rightarrow> string \<Rightarrow> error + bool" where
  "hasOwnProperty JUndefined k = Inl TypeError"
| "hasOwnProperty JNull k = Inl TypeError"
| "hasOwnProperty (JObj kvs) k = Inr (k \<in> fst ` set kvs)"
| "hasOwnProperty (JArr xs) k = Inr (k = ''length'' \<or> k \<in> set (object_keys (JArr xs)))"
| "hasOwnProperty (JStr s) k = Inr (k = ''length'' \<or> k \<in> set (object_keys (JStr s)))"
| "hasOwnProperty v k = Inr False"

text \<open>Writing an own property: an existing key keeps its place, a new one goes last.\<close>

fun set_prop :: "obj \<Rightarrow> string \<Rightarrow> jsval \<Rightarrow> obj" where
  "set_prop [] k v = [(k, v)]"
| "set_prop ((k', v') # kvs) k v =
     (if k' = k then (k, v) # kvs else (k', v') # set_prop kvs k v)"

text \<open>The own enumerable properties that \<^verbatim>\<open>{...v}\<close> copies.\<close>

fun spread :: "jsval \<Rightarrow> obj" where
  "spread (JObj kvs) = kvs"
| "spread (JArr xs) = zip (map show_nat [0..<length xs]) xs"
| "spread (JStr s) = zip (map show_nat [0..<length s]) (map (\<lambda>c. JStr [c]) s)"
| "spread v = []"

text \<open>Properties written one after the other onto an object, as an object literal does.\<close>

definition assign_all :: "obj \<Rightarrow> obj \<Rightarrow> obj" where
  "assign_all target src = fold (\<lambda>(k, v) acc. set_prop acc k v) src target"

text \<open>
  The nested assignment \<^verbatim>\<open>o.k.k1...kn = v\<close> on objects the program built itself: the
  objects on the way are read, the last one gets the property, and each is stored back
  where it was read.
\<close>

fun assign_in :: "obj \<Rightarrow> string \<Rightarrow> string list \<Rightarrow> jsval \<Rightarrow> error + obj" where
  "assign_in kvs k [] v = Inr (set_prop kvs k v)"
| "assign_in kvs k (k' # ks) v =
     (case obj_get kvs k of
        JObj inner \<Rightarrow> bindE (assign_in inner k' ks v) (\<lambda>inner'. Inr (set_prop kvs k (JObj inner')))
      | _ \<Rightarrow> Inl TypeError)"


subsection \<open>Method calls and operators on configuration values\<close>

text \<open>\<^verbatim>\<open>v.toLowerCase()\<close>: only a string has the method.\<close>

fun call_toLowerCase :: "runtime \<Rightarrow> jsval \<Rightarrow> error + string" where
  "call_toLowerCase rt (JStr s) = Inr (toLowerCase rt s)"
| "call_toLowerCase rt v = Inl TypeError"

text \<open>
  \<^verbatim>\<open>v?.includes(x) ?? false\<close> for a string \<open>x\<close>: \<^verbatim>\<open>false\<close> on \<^verbatim>\<open>undefined\<close> and
  \<^verbatim>\<open>null\<close>, membership on an array, the substring test on a string; nothing else has the
  method.
\<close>

fun includes_or_false :: "jsval \<Rightarrow> string \<Rightarrow> error + bool" where
  "includes_or_false JUndefined x = Inr False"
| "includes_or_false JNull x = Inr False"
| "includes_or_false (JArr xs) x = Inr (JStr x \<in> set xs)"
| "includes_or_false (JStr s) x = Inr (includes_str s x)"
| "includes_or_false v x = Inl TypeError"

text \<open>
  \<^verbatim>\<open>...(v ?? [])\<close> inside an array literal: the elements of an array, the characters of a
  string; nothing else is iterable.
\<close>

fun iterate_or_empty :: "jsval \<Rightarrow> error + jsval list" where
  "iterate_or_empty JUndefined = Inr []"
| "iterate_or_empty JNull = Inr []"
| "iterate_or_empty (JArr xs) = Inr xs"
| "iterate_or_empty (JStr s) = Inr (map (\<lambda>c. JStr [c]) s)"
| "iterate_or_empty v = Inl TypeError"

text \<open>
  The equality of a \<^verbatim>\<open>Set\<close>: primitive values are compared by value, an array or object
  only equals itself, and two elements of a configuration list are never the same array
  or object.
\<close>

fun same_value_zero :: "jsval \<Rightarrow> jsval \<Rightarrow> bool" where
  "same_value_zero (JArr xs) w = False"
| "same_value_zero (JObj kvs) w = False"
| "same_value_zero (JNative k) w = False"
| "same_value_zero v w = (v = w)"

text \<open>\<^verbatim>\<open>Array.from(new Set(xs))\<close>: the first occurrence of every element, in order.\<close>

fun set_insert_all :: "jsval list \<Rightarrow> jsval list \<Rightarrow> jsval list" where
  "set_insert_all seen [] = seen"
| "set_insert_all seen (x # xs) =
     set_insert_all (if list_ex (same_value_zero x) seen then seen else seen @ [x]) xs"

definition array_from_set :: "jsval list \<Rightarrow> jsval list" where
  "array_from_set xs = set_insert_all [] xs"

text \<open>\<^verbatim>\<open>xs.reduce(f, init)\<close> with a callback that may throw.\<close>

fun reduceE :: "('b \<Rightarrow> 'a \<Rightarrow> error + 'b) \<Rightarrow> 'a list \<Rightarrow> 'b \<Rightarrow> error + 'b" where
  "reduceE f [] acc = Inr acc"
| "reduceE f (x # xs) acc = bindE (f acc x) (reduceE f xs)"

text \<open>\<^verbatim>\<open>Object.fromEntries\<close> on pairs whose keys are already property keys.\<close>

definition fromEntries :: "(string \<times> jsval) list \<Rightarrow> obj" where
  "fromEntries entries = assign_all [] entries"

text \<open>
  \<^verbatim>\<open>v > 0\<close>. \<^verbatim>\<open>undefined\<close> is \<^verbatim>\<open>NaN\<close>, \<^verbatim>\<open>null\<close> is \<open>0\<close>, \<^verbatim>\<open>true\<close> is \<open>1\<close>. A string is
  read as a number by the runtime, and an array or object is first turned into its
  string; whether that number is above zero is \<open>positive\<close> of the runtime.
\<close>

fun greater_than_zero :: "runtime \<Rightarrow> jsval \<Rightarrow> error + bool" where
  "greater_than_zero rt JUndefined = Inr False"
| "greater_than_zero rt JNull = Inr False"
| "greater_than_zero rt (JBool b) = Inr b"
| "greater_than_zero rt (JNum n) = Inr (0 < n)"
| "greater_than_zero rt (JStr s) = Inr (positive rt s)"
| "greater_than_zero rt v = bindE (to_string v) (\<lambda>s. Inr (positive rt s))"

section \<open>The helpers of parseAWSExports\<close>

text \<open>\<^verbatim>\<open>redirectStr?.split(',') ?? []\<close>\<close>

fun getRedirectUrl :: "jsval \<Rightarrow> error + jsval" where
  "getRedirectUrl JUndefined = Inr (JArr [])"
| "getRedirectUrl JNull = Inr (JArr [])"
| "getRedirectUrl (JStr s) = Inr (JArr (map JStr (split_comma s)))"
| "getRedirectUrl v = Inl TypeError"

definition getOAuthConfig :: "jsval \<Rightarrow> error + jsval" where
  "getOAuthConfig oauth =
     (if nullish oauth then Inl TypeError
      else
        let domain = prop_of oauth ''domain'';
            scope = prop_of oauth ''scope'';
            redirectSignIn = prop_of oauth ''redirectSignIn'';
            redirectSignOut = prop_of oauth ''redirectSignOut'';
            responseType = prop_of oauth ''responseType''
        in bindE (getRedirectUrl redirectSignIn) (\<lambda>signIn.
           bindE (getRedirectUrl redirectSignOut) (\<lambda>signOut.
           Inr (JObj [(''domain'', domain), (''scopes'', scope),
                      (''redirectSignIn'', signIn), (''redirectSignOut'', signOut),
                      (''responseType'', responseType)]))))"

text \<open>The callback of \<^verbatim>\<open>parseSocialProviders\<close>.\<close>

definition updateProvider :: "runtime \<Rightarrow> jsval \<Rightarrow> error + jsval" where
  "updateProvider rt provider =
     bindE (call_toLowerCase rt provider) (\<lambda>updatedProvider.
       Inr (JStr (toUpperCase rt (charAt0 updatedProvider) @ slice1 updatedProvider)))"

fun parseSocialProviders :: "runtime \<Rightarrow> jsval \<Rightarrow> error + jsval" where
  "parseSocialProviders rt (JArr providers) =
     bindE (sequenceE (map (updateProvider rt) providers)) (\<lambda>ps. Inr (JArr ps))"
| "parseSocialProviders rt v = Inl TypeError"


section \<open>parseAWSExports\<close>

text \<open>
  The function fills \<^verbatim>\<open>amplifyConfig\<close> section by section. Each section below takes the
  configuration and the object built so far and returns the object after it, or the
  error it throws. The only log line is the \<^verbatim>\<open>logger.debug\<close> of the API section.
\<close>

datatype log_entry = Debug string

definition authTypeMapping :: obj where
  "authTypeMapping =
     [(''API_KEY'', JStr ''apiKey''),
      (''AWS_IAM'', JStr ''iam''),
      (''AMAZON_COGNITO_USER_POOLS'', JStr ''userPool''),
      (''OPENID_CONNECT'', JStr ''oidc''),
      (''NONE'', JStr ''none''),
      (''AWS_LAMBDA'', JStr ''lambda''),
      (''LAMBDA'', JStr ''lambda'')]"

definition pinpoint :: "jsval \<Rightarrow> jsval \<Rightarrow> jsval" where
  "pinpoint appId region = JObj [(''Pinpoint'', JObj [(''appId'', appId), (''region'', region)])]"

definition parse_analytics :: "jsval \<Rightarrow> obj \<Rightarrow> obj" where
  "parse_analytics config amplifyConfig =
     (let aws_mobile_analytics_app_id = prop_of config ''aws_mobile_analytics_app_id'';
          aws_mobile_analytics_app_region = prop_of config ''aws_mobile_analytics_app_region''
      in if truthy aws_mobile_analytics_app_id
         then set_prop amplifyConfig ''Analytics''
                (pinpoint aws_mobile_analytics_app_id aws_mobile_analytics_app_region)
         else amplifyConfig)"

text \<open>
  \<^verbatim>\<open>const { InAppMessaging, Push } = Notifications ?? {}\<close> followed by
  \<^verbatim>\<open>InAppMessaging?.AWSPinpoint\<close> or \<^verbatim>\<open>Push?.AWSPinpoint\<close>: the Pinpoint block of a channel.
\<close>

definition channel_pinpoint :: "jsval \<Rightarrow> string \<Rightarrow> jsval" where
  "channel_pinpoint config channel =
     (let Notifications = prop_of config ''Notifications''
      in opt_get (prop_of (if nullish Notifications then JObj [] else Notifications) channel)
           ''AWSPinpoint'')"

definition parse_notifications :: "jsval \<Rightarrow> obj \<Rightarrow> obj" where
  "parse_notifications config amplifyConfig =
     (let inAppPinpoint = channel_pinpoint config ''InAppMessaging'';
          pushPinpoint = channel_pinpoint config ''Push''
      in if truthy inAppPinpoint \<or> truthy pushPinpoint then
           (let amplifyConfig1 =
                  (if truthy inAppPinpoint
                   then set_prop amplifyConfig ''Notifications''
                          (JObj [(''InAppMessaging'',
                                  pinpoint (prop_of inAppPinpoint ''appId'') (prop_of inAppPinpoint ''region''))])
                   else amplifyConfig)
            in if truthy pushPinpoint
               then set_prop amplifyConfig1 ''Notifications''
                      (JObj (set_prop (spread (obj_get amplifyConfig1 ''Notifications''))
                               ''PushNotification''
                               (pinpoint (prop_of pushPinpoint ''appId'') (prop_of pushPinpoint ''region''))))
               else amplifyConfig1)
         else amplifyConfig)"

text \<open>\<^verbatim>\<open>bot => [bot.name, bot]\<close>, and the key \<^verbatim>\<open>Object.fromEntries\<close> makes of the name.\<close>

definition bot_entry :: "jsval \<Rightarrow> error + (string \<times> jsval)" where
  "bot_entry b = bindE (get b ''name'') (\<lambda>name. bindE (to_string name) (\<lambda>key. Inr (key, b)))"

definition parse_interactions :: "jsval \<Rightarrow> obj \<Rightarrow> error + obj" where
  "parse_interactions config amplifyConfig =
     (case prop_of config ''aws_bots_config'' of
        JArr aws_bots_config \<Rightarrow>
          bindE (sequenceE (map bot_entry aws_bots_config)) (\<lambda>entries.
            Inr (set_prop amplifyConfig ''Interactions'' (JObj [(''LexV1'', JObj (fromEntries entries))])))
      | _ \<Rightarrow> Inr amplifyConfig)"

definition parse_api :: "jsval \<Rightarrow> obj \<Rightarrow> log_entry list \<times> (error + obj)" where
  "parse_api config amplifyConfig =
     (let aws_appsync_graphqlEndpoint = prop_of config ''aws_appsync_graphqlEndpoint'';
          aws_appsync_authenticationType = prop_of config ''aws_appsync_authenticationType'';
          modelIntrospection = prop_of config ''modelIntrospection''
      in if truthy aws_appsync_graphqlEndpoint then
           (case to_string aws_appsync_authenticationType of
              Inl e \<Rightarrow> ([], Inl e)
            | Inr key \<Rightarrow>
                (let defaultAuthMode = obj_get authTypeMapping key;
                     logs = (if \<not> truthy defaultAuthMode
                             then [Debug (''Invalid authentication type '' @ key @ ''. Falling back to IAM.'')]
                             else []);
                     amplifyConfig1 = set_prop amplifyConfig ''API''
                       (JObj [(''GraphQL'', JObj
                          [(''endpoint'', aws_appsync_graphqlEndpoint),
                           (''customEndpoint'', prop_of config ''aws_appsync_customEndpoint''),
                           (''apiKey'', prop_of config ''aws_appsync_apiKey''),
                           (''region'', prop_of config ''aws_appsync_region''),
                           (''defaultAuthMode'',
                              if nullish defaultAuthMode then JStr ''iam'' else defaultAuthMode)])])
                 in (logs,
                     if truthy modelIntrospection
                     then assign_in amplifyConfig1 ''API'' [''GraphQL'', ''modelIntrospection''] modelIntrospection
                     else Inr amplifyConfig1)))
         else ([], Inr amplifyConfig))"

definition mfaConfig :: "runtime \<Rightarrow> jsval \<Rightarrow> error + jsval" where
  "mfaConfig rt config =
     (let aws_cognito_mfa_configuration = prop_of config ''aws_cognito_mfa_configuration'';
          aws_cognito_mfa_types = prop_of config ''aws_cognito_mfa_types''
      in if truthy aws_cognito_mfa_configuration then
           bindE (call_toLowerCase rt aws_cognito_mfa_configuration) (\<lambda>status.
           bindE (includes_or_false aws_cognito_mfa_types ''TOTP'') (\<lambda>totpEnabled.
           bindE (includes_or_false aws_cognito_mfa_types ''SMS'') (\<lambda>smsEnabled.
           Inr (JObj [(''status'', JStr status), (''totpEnabled'', JBool totpEnabled),
                      (''smsEnabled'', JBool smsEnabled)]))))
         else Inr JUndefined)"

definition passwordFormatConfig :: "jsval \<Rightarrow> error + jsval" where
  "passwordFormatConfig config =
     (let aws_cognito_password_protection_settings =
            prop_of config ''aws_cognito_password_protection_settings''
      in if truthy aws_cognito_password_protection_settings then
           (let passwordPolicyCharacters =
                  prop_of aws_cognito_password_protection_settings ''passwordPolicyCharacters''
            in bindE (includes_or_false passwordPolicyCharacters ''REQUIRES_LOWERCASE'') (\<lambda>requireLowercase.
               bindE (includes_or_false passwordPolicyCharacters ''REQUIRES_UPPERCASE'') (\<lambda>requireUppercase.
               bindE (includes_or_false passwordPolicyCharacters ''REQUIRES_NUMBERS'') (\<lambda>requireNumbers.
               bindE (includes_or_false passwordPolicyCharacters ''REQUIRES_SYMBOLS'') (\<lambda>requireSpecialCharacters.
               Inr (JObj [(''minLength'',
                             prop_of aws_cognito_password_protection_settings ''passwordPolicyMinLength''),
                          (''requireLowercase'', JBool requireLowercase),
                          (''requireUppercase'', JBool requireUppercase),
                          (''requireNumbers'', JBool requireNumbers),
                          (''requireSpecialCharacters'', JBool requireSpecialCharacters)]))))))
         else Inr JUndefined)"

definition mergedUserAttributes :: "jsval \<Rightarrow> error + jsval list" where
  "mergedUserAttributes config =
     bindE (iterate_or_empty (prop_of config ''aws_cognito_verification_mechanisms'')) (\<lambda>mechanisms.
     bindE (iterate_or_empty (prop_of config ''aws_cognito_signup_attributes'')) (\<lambda>attributes.
     Inr (array_from_set (mechanisms @ attributes))))"

text \<open>The reducer \<^verbatim>\<open>(attributes, key) => ({...attributes, [key.toLowerCase()]: { required: true }})\<close>.\<close>

definition add_user_attribute :: "runtime \<Rightarrow> obj \<Rightarrow> jsval \<Rightarrow> error + obj" where
  "add_user_attribute rt attributes key =
     bindE (call_toLowerCase rt key) (\<lambda>k. Inr (set_prop attributes k (JObj [(''required'', JBool True)])))"

definition userAttributes :: "runtime \<Rightarrow> jsval \<Rightarrow> error + jsval" where
  "userAttributes rt config =
     bindE (mergedUserAttributes config) (\<lambda>merged.
     bindE (reduceE (add_user_attribute rt) merged []) (\<lambda>attributes. Inr (JObj attributes)))"

text \<open>The object literal assigned to \<^verbatim>\<open>amplifyConfig.Auth.Cognito\<close>.\<close>

definition cognito :: "jsval \<Rightarrow> jsval \<Rightarrow> jsval \<Rightarrow> jsval \<Rightarrow> bool \<Rightarrow> bool \<Rightarrow> obj" where
  "cognito config attributes mfa passwordFormat loginWithEmailEnabled loginWithPhoneEnabled =
     [(''identityPoolId'', prop_of config ''aws_cognito_identity_pool_id''),
      (''allowGuestAccess'', JBool (prop_of config ''aws_mandatory_sign_in'' \<noteq> JStr ''enable'')),
      (''signUpVerificationMethod'', prop_of config ''aws_cognito_sign_up_verification_method''),
      (''userAttributes'', attributes),
      (''userPoolClientId'', prop_of config ''aws_user_pools_web_client_id''),
      (''userPoolId'', prop_of config ''aws_user_pools_id''),
      (''mfa'', mfa),
      (''passwordFormat'', passwordFormat),
      (''loginWith'', JObj
         [(''username'', JBool (\<not> (loginWithEmailEnabled \<or> loginWithPhoneEnabled))),
          (''email'', JBool loginWithEmailEnabled),
          (''phone'', JBool loginWithPhoneEnabled)])]"

definition parse_auth :: "runtime \<Rightarrow> jsval \<Rightarrow> obj \<Rightarrow> error + obj" where
  "parse_auth rt config amplifyConfig =
     bindE (mfaConfig rt config) (\<lambda>mfa.
     bindE (passwordFormatConfig config) (\<lambda>passwordFormat.
     bindE (userAttributes rt config) (\<lambda>attributes.
     bindE (includes_or_false (prop_of config ''aws_cognito_username_attributes'') ''EMAIL'')
       (\<lambda>loginWithEmailEnabled.
     bindE (includes_or_false (prop_of config ''aws_cognito_username_attributes'') ''PHONE_NUMBER'')
       (\<lambda>loginWithPhoneEnabled.
     if truthy (prop_of config ''aws_cognito_identity_pool_id'')
        \<or> truthy (prop_of config ''aws_user_pools_id'')
     then Inr (set_prop amplifyConfig ''Auth''
                 (JObj [(''Cognito'',
                         JObj (cognito config attributes mfa passwordFormat
                                 loginWithEmailEnabled loginWithPhoneEnabled))]))
     else Inr amplifyConfig)))))"

definition hasOAuthConfig :: "jsval \<Rightarrow> bool" where
  "hasOAuthConfig config =
     (let oauth = prop_of config ''oauth''
      in if truthy oauth then 0 < length (object_keys oauth) else False)"

definition hasSocialProviderConfig :: "runtime \<Rightarrow> jsval \<Rightarrow> error + bool" where
  "hasSocialProviderConfig rt config =
     (let aws_cognito_social_providers = prop_of config ''aws_cognito_social_providers''
      in if truthy aws_cognito_social_providers
         then greater_than_zero rt (prop_of aws_cognito_social_providers ''length'')
         else Inr False)"

definition parse_oauth :: "runtime \<Rightarrow> jsval \<Rightarrow> obj \<Rightarrow> error + obj" where
  "parse_oauth rt config amplifyConfig =
     bindE (hasSocialProviderConfig rt config) (\<lambda>hasSocial.
       if truthy (obj_get amplifyConfig ''Auth'') \<and> hasOAuthConfig config then
         bindE (get (prop_of (obj_get amplifyConfig ''Auth'') ''Cognito'') ''loginWith'') (\<lambda>loginWith.
         bindE (getOAuthConfig (prop_of config ''oauth'')) (\<lambda>oauthConfig.
         bindE (if hasSocial
                then bindE (parseSocialProviders rt (prop_of config ''aws_cognito_social_providers''))
                       (\<lambda>providers. Inr (JObj [(''providers'', providers)]))
                else Inr (JBool False)) (\<lambda>social.
         assign_in amplifyConfig ''Auth'' [''Cognito'', ''loginWith'']
           (JObj (set_prop (spread loginWith) ''oauth''
                    (JObj (assign_all (spread oauthConfig) (spread social))))))))
       else Inr amplifyConfig)"

definition parse_storage :: "jsval \<Rightarrow> obj \<Rightarrow> obj" where
  "parse_storage config amplifyConfig =
     (let aws_user_files_s3_bucket = prop_of config ''aws_user_files_s3_bucket''
      in if truthy aws_user_files_s3_bucket
         then set_prop amplifyConfig ''Storage''
                (JObj [(''S3'', JObj
                   [(''bucket'', aws_user_files_s3_bucket),
                    (''region'', prop_of config ''aws_user_files_s3_bucket_region''),
                    (''dangerouslyConnectToHttpEndpointForTesting'',
                       prop_of config ''aws_user_files_s3_dangerously_connect_to_http_endpoint_for_testing'')])])
         else amplifyConfig)"

definition parse_geo :: "jsval \<Rightarrow> obj \<Rightarrow> error + obj" where
  "parse_geo config amplifyConfig =
     (let geo = prop_of config ''geo''
      in if truthy geo then
           (let amazon_location_service = prop_of geo ''amazon_location_service''
            in bindE (get amazon_location_service ''maps'') (\<lambda>maps.
               bindE (get amazon_location_service ''geofenceCollections'') (\<lambda>geofenceCollections.
               bindE (get amazon_location_service ''search_indices'') (\<lambda>search_indices.
               bindE (get amazon_location_service ''region'') (\<lambda>region.
               Inr (set_prop amplifyConfig ''Geo''
                      (JObj [(''LocationService'', JObj
                         [(''maps'', maps),
                          (''geofenceCollections'', geofenceCollections),
                          (''searchIndices'', search_indices),
                          (''region'', region)])])))))))
         else Inr amplifyConfig)"

text \<open>The reducer of the REST section.\<close>

definition rest_entry :: "obj \<Rightarrow> jsval \<Rightarrow> error + obj" where
  "rest_entry acc api =
     (if nullish api then Inl TypeError
      else
        let name = prop_of api ''name'';
            endpoint = prop_of api ''endpoint'';
            region = prop_of api ''region'';
            service = prop_of api ''service''
        in bindE (to_string name) (\<lambda>key.
             Inr (set_prop acc key
                    (JObj (assign_all
                             (assign_all [(''endpoint'', endpoint)]
                                (spread (if truthy service then JObj [(''service'', service)] else JUndefined)))
                             (spread (if truthy region then JObj [(''region'', region)] else JUndefined)))))))"

definition parse_rest :: "jsval \<Rightarrow> obj \<Rightarrow> error + obj" where
  "parse_rest config amplifyConfig =
     (let aws_cloud_logic_custom = prop_of config ''aws_cloud_logic_custom''
      in if truthy aws_cloud_logic_custom then
           (case aws_cloud_logic_custom of
              JArr apis \<Rightarrow>
                bindE (reduceE rest_entry apis []) (\<lambda>rest.
                  Inr (set_prop amplifyConfig ''API''
                         (JObj (set_prop (spread (obj_get amplifyConfig ''API'')) ''REST'' (JObj rest)))))
            | _ \<Rightarrow> Inl TypeError)
         else Inr amplifyConfig)"

definition parse_predictions :: "jsval \<Rightarrow> obj \<Rightarrow> error + obj" where
  "parse_predictions config amplifyConfig =
     (let predictions = prop_of config ''predictions''
      in if truthy predictions then
           (let defaults = opt_get (opt_get (opt_get predictions ''convert'') ''speechGenerator'') ''defaults'';
                voiceId = prop_of (if nullish defaults then JObj [] else defaults) ''VoiceId''
            in if truthy voiceId then
                 bindE (get predictions ''convert'') (\<lambda>convert.
                 bindE (get convert ''speechGenerator'') (\<lambda>speechGenerator.
                 Inr (set_prop amplifyConfig ''Predictions''
                        (JObj (set_prop (spread predictions) ''convert''
                           (JObj (set_prop (spread convert) ''speechGenerator''
                              (JObj (set_prop (spread speechGenerator) ''defaults''
                                 (JObj [(''voiceId'', voiceId)]))))))))))
               else Inr (set_prop amplifyConfig ''Predictions'' predictions))
         else Inr amplifyConfig)"

definition invalid_config :: error where
  "invalid_config =
     AmplifyError ''InvalidParameterException'' ''Invalid config parameter.''
       ''Ensure passing the config object imported from  `amplifyconfiguration.json`.''"

text \<open>The sections after the API section, none of which logs.\<close>

definition parse_rest_of :: "runtime \<Rightarrow> jsval \<Rightarrow> obj \<Rightarrow> error + obj" where
  "parse_rest_of rt config amplifyConfig =
     bindE (parse_auth rt config amplifyConfig) (\<lambda>amplifyConfig1.
     bindE (parse_oauth rt config amplifyConfig1) (\<lambda>amplifyConfig2.
     bindE (parse_geo config (parse_storage config amplifyConfig2)) (\<lambda>amplifyConfig3.
     bindE (parse_rest config amplifyConfig3) (\<lambda>amplifyConfig4.
     parse_predictions config amplifyConfig4))))"

text \<open>
  The whole function: the log lines written and what the call ends with, the error
  thrown or the object returned. A missing argument is \<^verbatim>\<open>{}\<close> by the parameter's default.
\<close>

definition parseAWSExports :: "runtime \<Rightarrow> jsval \<Rightarrow> log_entry list \<times> (error + jsval)" where
  "parseAWSExports rt arg =
     (let config = (if arg = JUndefined then JObj [] else arg)
      in case hasOwnProperty config ''aws_project_region'' of
           Inl e \<Rightarrow> ([], Inl e)
         | Inr False \<Rightarrow> ([], Inl invalid_config)
         | Inr True \<Rightarrow>
             (case parse_interactions config (parse_notifications config (parse_analytics config [])) of
                Inl e \<Rightarrow> ([], Inl e)
              | Inr amplifyConfig \<Rightarrow>
                  (case parse_api config amplifyConfig of
                     (logs, Inl e) \<Rightarrow> (logs, Inl e)
                   | (logs, Inr amplifyConfig1) \<Rightarrow>
                       (logs, bindE (parse_rest_of rt config amplifyConfig1)
                                (\<lambda>amplifyConfig2. Inr (JObj amplifyConfig2))))))"


section \<open>Notions the statements use\<close>

text \<open>Reading the returned object along a path of own properties.\<close>

fun lookup_path :: "jsval \<Rightarrow> string list \<Rightarrow> jsval option" where
  "lookup_path v [] = Some v"
| "lookup_path (JObj kvs) (k # ks) =
     (case map_of kvs k of Some v \<Rightarrow> lookup_path v ks | None \<Rightarrow> None)"
| "lookup_path v (k # ks) = None"

text \<open>A computation that, when it throws, throws the runtime's \<^verbatim>\<open>TypeError\<close>.\<close>

definition type_error_only :: "error + 'a \<Rightarrow> bool" where
  "type_error_only m = (case m of Inl e \<Rightarrow> e = TypeError | Inr a \<Rightarrow> True)"

text \<open>
  An instance of the runtime for the examples.
  \<^item> It reads strings of decimal digits as numbers. No example meets a string there.
  \<^item> Outside ASCII it knows two code units, \<^verbatim>\<open>U+0130\<close> (the capital letter I with a dot
    above) and \<^verbatim>\<open>U+0307\<close> (the combining dot above), for which two characters from 128 on
    stand. The capital letter is lower-cased to \<^verbatim>\<open>i\<close> followed by the combining dot, as the
    Unicode special casing has it; upper-casing changes neither of the two. Every other
    character from 128 on it takes for a code unit without case. Beside these, the ASCII
    letters are mapped as in an ASCII string.
\<close>

definition digits_positive :: "string \<Rightarrow> bool" where
  "digits_positive s =
     (s \<noteq> [] \<and> list_all (\<lambda>c. c \<in> set digit_chars) s \<and> list_ex (\<lambda>c. c \<noteq> CHR ''0'') s)"

definition capital_i_dot_above :: char where
  "capital_i_dot_above = CHR 0x80"

definition combining_dot_above :: char where
  "combining_dot_above = CHR 0x81"

definition lower_code_unit :: "char \<Rightarrow> string" where
  "lower_code_unit c =
     (if c = capital_i_dot_above then [CHR ''i'', combining_dot_above] else [to_lower_char c])"

definition example_runtime :: runtime where
  "example_runtime =
     \<lparr>positive = digits_positive,
      lower_case = (\<lambda>s. concat (map lower_code_unit s)),
      upper_case = map to_upper_char\<rparr>"

text \<open>
  Title case in the words of the specification: the first character upper-cased, all
  remaining characters lower-cased. A character is a code unit, as for \<^verbatim>\<open>charAt\<close>.
\<close>

definition title_case :: "runtime \<Rightarrow> string \<Rightarrow> string" where
  "title_case rt s = toUpperCase rt (charAt0 s) @ toLowerCase rt (slice1 s)"


fun is_string :: "jsval \<Rightarrow> bool" where
  "is_string (JStr s) = True"
| "is_string v = False"

fun is_array :: "jsval \<Rightarrow> bool" where
  "is_array (JArr xs) = True"
| "is_array v = False"

definition string_or_absent :: "jsval \<Rightarrow> bool" where
  "string_or_absent v = (nullish v \<or> is_string v)"






section \<open>Example configurations\<close>

definition oauth_example :: jsval where
  "oauth_example =
     JObj [(''domain'', JStr ''auth.example.com''),
           (''scope'', JArr [JStr ''email'', JStr ''openid'']),
           (''redirectSignIn'', JStr ''a,b,c''),
           (''responseType'', JStr ''code'')]"

text \<open>A configuration with every section, and what \<^verbatim>\<open>parseAWSExports\<close> returns for it.\<close>

definition config_full :: obj where
  "config_full =
     [(''aws_project_region'', JStr ''us-east-1''),
      (''aws_mobile_analytics_app_id'', JStr ''app-1''),
      (''aws_mobile_analytics_app_region'', JStr ''us-east-1''),
      (''Notifications'', JObj
         [(''InAppMessaging'', JObj
             [(''AWSPinpoint'', JObj [(''appId'', JStr ''app-2''), (''region'', JStr ''us-east-1'')])]),
          (''Push'', JObj
             [(''AWSPinpoint'', JObj [(''appId'', JStr ''app-3''), (''region'', JStr ''us-west-2'')])])]),
      (''aws_bots_config'', JArr
         [JObj [(''name'', JStr ''BookTrip''), (''alias'', JStr ''$LATEST''),
                (''region'', JStr ''us-east-1'')]]),
      (''aws_appsync_graphqlEndpoint'', JStr ''https://example.com/graphql''),
      (''aws_appsync_region'', JStr ''us-east-1''),
      (''aws_appsync_authenticationType'', JStr ''AWS_IAM''),
      (''aws_cognito_identity_pool_id'', JStr ''us-east-1:pool''),
      (''aws_user_pools_id'', JStr ''us-east-1_users''),
      (''aws_user_pools_web_client_id'', JStr ''client''),
      (''aws_cognito_username_attributes'', JArr [JStr ''EMAIL'']),
      (''aws_cognito_social_providers'', JArr [JStr ''GOOGLE'', JStr ''FACEBOOK'']),
      (''aws_cognito_signup_attributes'', JArr [JStr ''EMAIL'']),
      (''aws_cognito_mfa_configuration'', JStr ''OPTIONAL''),
      (''aws_cognito_mfa_types'', JArr [JStr ''SMS'']),
      (''aws_cognito_password_protection_settings'', JObj
         [(''passwordPolicyMinLength'', JNum 8),
          (''passwordPolicyCharacters'', JArr [JStr ''REQUIRES_LOWERCASE'', JStr ''REQUIRES_NUMBERS''])]),
      (''aws_cognito_verification_mechanisms'', JArr [JStr ''EMAIL'', JStr ''PHONE_NUMBER'']),
      (''oauth'', JObj
         [(''domain'', JStr ''auth.example.com''),
          (''scope'', JArr [JStr ''email'', JStr ''openid'']),
          (''redirectSignIn'', JStr ''a,b,c''),
          (''redirectSignOut'', JStr []),
          (''responseType'', JStr ''code'')]),
      (''aws_user_files_s3_bucket'', JStr ''bucket''),
      (''aws_user_files_s3_bucket_region'', JStr ''us-east-1''),
      (''geo'', JObj [(''amazon_location_service'', JObj
         [(''region'', JStr ''us-east-1''), (''search_indices'', JObj [(''default'', JStr ''idx'')])])]),
      (''aws_cloud_logic_custom'', JArr
         [JObj [(''name'', JStr ''api1''), (''endpoint'', JStr ''https://example.com/api''),
                (''region'', JStr ''us-east-1'')]]),
      (''predictions'', JObj [(''convert'', JObj [(''speechGenerator'', JObj
         [(''region'', JStr ''us-east-1''),
          (''defaults'', JObj [(''VoiceId'', JStr ''Ivy''), (''LanguageCode'', JStr ''en-US'')])])])])]"

definition output_full :: jsval where
  "output_full =
     JObj
      [(''Analytics'', JObj [(''Pinpoint'', JObj [(''appId'', JStr ''app-1''), (''region'', JStr ''us-east-1'')])]),
       (''Notifications'', JObj
          [(''InAppMessaging'', JObj
              [(''Pinpoint'', JObj [(''appId'', JStr ''app-2''), (''region'', JStr ''us-east-1'')])]),
           (''PushNotification'', JObj
              [(''Pinpoint'', JObj [(''appId'', JStr ''app-3''), (''region'', JStr ''us-west-2'')])])]),
       (''Interactions'', JObj
          [(''LexV1'', JObj
              [(''BookTrip'', JObj [(''name'', JStr ''BookTrip''), (''alias'', JStr ''$LATEST''),
                                    (''region'', JStr ''us-east-1'')])])]),
       (''API'', JObj
          [(''GraphQL'', JObj
              [(''endpoint'', JStr ''https://example.com/graphql''),
               (''customEndpoint'', JUndefined),
               (''apiKey'', JUndefined),
               (''region'', JStr ''us-east-1''),
               (''defaultAuthMode'', JStr ''iam'')]),
           (''REST'', JObj
              [(''api1'', JObj [(''endpoint'', JStr ''https://example.com/api''),
                                (''region'', JStr ''us-east-1'')])])]),
       (''Auth'', JObj
          [(''Cognito'', JObj
              [(''identityPoolId'', JStr ''us-east-1:pool''),
               (''allowGuestAccess'', JBool True),
               (''signUpVerificationMethod'', JUndefined),
               (''userAttributes'', JObj
                  [(''email'', JObj [(''required'', JBool True)]),
                   (''phone_number'', JObj [(''required'', JBool True)])]),
               (''userPoolClientId'', JStr ''client''),
               (''userPoolId'', JStr ''us-east-1_users''),
               (''mfa'', JObj
                  [(''status'', JStr ''optional''), (''totpEnabled'', JBool False),
                   (''smsEnabled'', JBool True)]),
               (''passwordFormat'', JObj
                  [(''minLength'', JNum 8),
                   (''requireLowercase'', JBool True),
                   (''requireUppercase'', JBool False),
                   (''requireNumbers'', JBool True),
                   (''requireSpecialCharacters'', JBool False)]),
               (''loginWith'', JObj
                  [(''username'', JBool False),
                   (''email'', JBool True),
                   (''phone'', JBool False),
                   (''oauth'', JObj
                      [(''domain'', JStr ''auth.example.com''),
                       (''scopes'', JArr [JStr ''email'', JStr ''openid'']),
                       (''redirectSignIn'', JArr [JStr ''a'', JStr ''b'', JStr ''c'']),
                       (''redirectSignOut'', JArr [JStr []]),
                       (''responseType'', JStr ''code''),
                       (''providers'', JArr [JStr ''Google'', JStr ''Facebook''])])])])]),
       (''Storage'', JObj
          [(''S3'', JObj
              [(''bucket'', JStr ''bucket''),
               (''region'', JStr ''us-east-1''),
               (''dangerouslyConnectToHttpEndpointForTesting'', JUndefined)])]),
       (''Geo'', JObj
          [(''LocationService'', JObj
              [(''maps'', JUndefined),
               (''geofenceCollections'', JUndefined),
               (''searchIndices'', JObj [(''default'', JStr ''idx'')]),
               (''region'', JStr ''us-east-1'')])]),
       (''Predictions'', JObj
          [(''convert'', JObj
              [(''speechGenerator'', JObj
                  [(''region'', JStr ''us-east-1''),
                   (''defaults'', JObj [(''voiceId'', JStr ''Ivy'')])])])])]"

text \<open>Identity pool and the username attribute \<^verbatim>\<open>EMAIL\<close>, no oauth block.\<close>

definition config_email :: obj where
  "config_email =
     [(''aws_project_region'', JStr ''us-east-1''),
      (''aws_cognito_identity_pool_id'', JStr ''us-east-1:pool''),
      (''aws_cognito_username_attributes'', JArr [JStr ''EMAIL''])]"

definition output_email :: jsval where
  "output_email =
     JObj [(''Auth'', JObj [(''Cognito'', JObj
        [(''identityPoolId'', JStr ''us-east-1:pool''),
         (''allowGuestAccess'', JBool True),
         (''signUpVerificationMethod'', JUndefined),
         (''userAttributes'', JObj []),
         (''userPoolClientId'', JUndefined),
         (''userPoolId'', JUndefined),
         (''mfa'', JUndefined),
         (''passwordFormat'', JUndefined),
         (''loginWith'', JObj
            [(''username'', JBool False), (''email'', JBool True), (''phone'', JBool False)])])])]"

text \<open>A geo block without \<^verbatim>\<open>amazon_location_service\<close>.\<close>

definition config_geo_empty :: obj where
  "config_geo_empty = [(''aws_project_region'', JStr ''us-east-1''), (''geo'', JObj [])]"

text \<open>The same without the region marker.\<close>

definition config_no_region :: obj where
  "config_no_region = [(''geo'', JObj [])]"

text \<open>A single bot instead of a list of bots.\<close>

definition config_bot_object :: obj where
  "config_bot_object =
     [(''aws_project_region'', JStr ''us-east-1''),
      (''aws_bots_config'', JObj [(''name'', JStr ''BookTrip'')])]"

text \<open>An authentication type that is the name of a member of \<^verbatim>\<open>Object.prototype\<close>.\<close>

definition config_auth_constructor :: obj where
  "config_auth_constructor =
     [(''aws_project_region'', JStr ''us-east-1''),
      (''aws_appsync_graphqlEndpoint'', JStr ''https://example.com/graphql''),
      (''aws_appsync_authenticationType'', JStr ''constructor'')]"

text \<open>Rules that show a computation throws nothing but a \<^verbatim>\<open>TypeError\<close>.\<close>

named_theorems type_error_only_intros

section \<open>Basic facts\<close>

lemma bindE_Inr [simp]: "bindE (Inr a) f = f a"
  by (simp add: bindE_def)

lemma bindE_Inl [simp]: "bindE (Inl e) f = Inl e"
  by (simp add: bindE_def)

lemma bindE_eq_Inr: "bindE m f = Inr b \<longleftrightarrow> (\<exists>a. m = Inr a \<and> f a = Inr b)"
  by (cases m) simp_all

lemma to_upper_lower_char: "to_upper_char (to_lower_char c) = to_upper_char c"
  by (simp add: to_upper_char_def to_lower_char_def upper_letters_def lower_letters_def)

lemma is_ascii_to_lower_char: "is_ascii c \<Longrightarrow> is_ascii (to_lower_char c)"
  by (simp add: to_lower_char_def upper_letters_def lower_letters_def is_ascii_def)

lemma split_comma_not_Nil: "split_comma s \<noteq> []"
  by (induction s) (auto split: list.splits)

lemma join_split_comma: "join_comma (split_comma s) = s"
proof (induction s)
  case Nil
  show ?case by simp
next
  case (Cons c cs)
  show ?case
  proof (cases "split_comma cs")
    case Nil
    then show ?thesis using split_comma_not_Nil by blast
  next
    case (Cons p ps)
    then show ?thesis using Cons.IH
      by (cases ps) auto
  qed
qed

lemma split_comma_no_comma: "p \<in> set (split_comma s) \<Longrightarrow> CHR '','' \<notin> set p"
  by (induction s arbitrary: p) (auto split: list.splits if_splits)

section \<open>The helpers\<close>

subsection \<open>The redirect splitter\<close>

text \<open>
  C10. A redirect field that is present but the empty string gives the one-element list
  holding the empty string, not the empty list: the guard of \<^verbatim>\<open>getRedirectUrl\<close> is
  \<^verbatim>\<open>?.\<close> with \<^verbatim>\<open>??\<close>, so the empty list comes out exactly for \<^verbatim>\<open>undefined\<close> and
  \<^verbatim>\<open>null\<close>.
\<close>

theorem getRedirectUrl_empty_string:
  "getRedirectUrl (JStr []) = Inr (JArr [JStr []])
   \<and> (getRedirectUrl v = Inr (JArr []) \<longleftrightarrow> nullish v)"
  by (cases v) (simp_all add: split_comma_not_Nil)

subsection \<open>The OAuth extractor\<close>

lemma getRedirectUrl_pieces:
  assumes "string_or_absent v"
  shows "\<exists>ps. getRedirectUrl v = Inr (JArr (map JStr ps))
           \<and> (case v of
                 JStr s \<Rightarrow> ps \<noteq> [] \<and> join_comma ps = s \<and> (\<forall>p \<in> set ps. CHR '','' \<notin> set p)
               | _ \<Rightarrow> ps = [])"
  using assms
  by (cases v) (auto simp: string_or_absent_def split_comma_not_Nil join_split_comma
      split_comma_no_comma)

text \<open>
  C8. On a block whose redirect fields are strings or absent, \<^verbatim>\<open>getOAuthConfig\<close>
  returns the five fields: \<^verbatim>\<open>domain\<close> and \<^verbatim>\<open>responseType\<close> as they are, \<^verbatim>\<open>scopes\<close>
  the legacy \<^verbatim>\<open>scope\<close> as it is (never split), and each redirect field the legacy
  string split on the comma: the pieces hold no comma and joined by commas they give the
  string back. An absent redirect field gives the empty list.
\<close>

theorem getOAuthConfig_fields:
  assumes "\<not> nullish oauth"
    and "string_or_absent (prop_of oauth ''redirectSignIn'')"
    and "string_or_absent (prop_of oauth ''redirectSignOut'')"
  shows "\<exists>signIn signOut.
           getOAuthConfig oauth =
             Inr (JObj [(''domain'', prop_of oauth ''domain''),
                        (''scopes'', prop_of oauth ''scope''),
                        (''redirectSignIn'', JArr (map JStr signIn)),
                        (''redirectSignOut'', JArr (map JStr signOut)),
                        (''responseType'', prop_of oauth ''responseType'')])
           \<and> (case prop_of oauth ''redirectSignIn'' of
                 JStr s \<Rightarrow> signIn \<noteq> [] \<and> join_comma signIn = s \<and> (\<forall>p \<in> set signIn. CHR '','' \<notin> set p)
               | _ \<Rightarrow> signIn = [])
           \<and> (case prop_of oauth ''redirectSignOut'' of
                 JStr s \<Rightarrow> signOut \<noteq> [] \<and> join_comma signOut = s \<and> (\<forall>p \<in> set signOut. CHR '','' \<notin> set p)
               | _ \<Rightarrow> signOut = [])"
proof -
  from getRedirectUrl_pieces [OF assms(2)] obtain signIn where
    i: "getRedirectUrl (prop_of oauth ''redirectSignIn'') = Inr (JArr (map JStr signIn))"
       "(case prop_of oauth ''redirectSignIn'' of
           JStr s \<Rightarrow> signIn \<noteq> [] \<and> join_comma signIn = s \<and> (\<forall>p \<in> set signIn. CHR '','' \<notin> set p)
         | _ \<Rightarrow> signIn = [])"
    by blast
  from getRedirectUrl_pieces [OF assms(3)] obtain signOut where
    o: "getRedirectUrl (prop_of oauth ''redirectSignOut'') = Inr (JArr (map JStr signOut))"
       "(case prop_of oauth ''redirectSignOut'' of
           JStr s \<Rightarrow> signOut \<noteq> [] \<and> join_comma signOut = s \<and> (\<forall>p \<in> set signOut. CHR '','' \<notin> set p)
         | _ \<Rightarrow> signOut = [])"
    by blast
  have "getOAuthConfig oauth =
          Inr (JObj [(''domain'', prop_of oauth ''domain''),
                     (''scopes'', prop_of oauth ''scope''),
                     (''redirectSignIn'', JArr (map JStr signIn)),
                     (''redirectSignOut'', JArr (map JStr signOut)),
                     (''responseType'', prop_of oauth ''responseType'')])"
    using assms(1) i(1) o(1) by (simp add: getOAuthConfig_def)
  with i(2) o(2) show ?thesis by blast
qed

text \<open>The redirect string \<^verbatim>\<open>a,b,c\<close> and a missing sign-out field.\<close>

theorem getOAuthConfig_fields_witness:
  "getOAuthConfig oauth_example =
     Inr (JObj [(''domain'', JStr ''auth.example.com''),
                (''scopes'', JArr [JStr ''email'', JStr ''openid'']),
                (''redirectSignIn'', JArr [JStr ''a'', JStr ''b'', JStr ''c'']),
                (''redirectSignOut'', JArr []),
                (''responseType'', JStr ''code'')])"
proof -
  have n: "\<not> nullish oauth_example"
    by (simp add: oauth_example_def)
  have a: "string_or_absent (prop_of oauth_example ''redirectSignIn'')"
    by (simp add: oauth_example_def string_or_absent_def obj_get_def)
  have b: "string_or_absent (prop_of oauth_example ''redirectSignOut'')"
    by (simp add: oauth_example_def string_or_absent_def obj_get_def object_prototype_def)
  from getOAuthConfig_fields [OF n a b] show ?thesis
    by (simp add: oauth_example_def getOAuthConfig_def obj_get_def object_prototype_def)
qed

subsection \<open>The social provider normalizer\<close>

text \<open>
  What the callback makes of a name, whatever the runtime: the lower-cased name with its
  first code unit upper-cased.
\<close>

lemma updateProvider_string:
  "updateProvider rt (JStr p)
     = Inr (JStr (toUpperCase rt (charAt0 (toLowerCase rt p)) @ slice1 (toLowerCase rt p)))"
  by (simp add: updateProvider_def)

lemma sequenceE_updateProvider:
  "sequenceE (map (updateProvider rt \<circ> JStr) ps)
     = Inr (map (\<lambda>p. JStr (toUpperCase rt (charAt0 (toLowerCase rt p)) @ slice1 (toLowerCase rt p))) ps)"
  by (induction ps) (simp_all add: updateProvider_string)

text \<open>
  The title case of a name of ASCII code units does not depend on the runtime, and it is
  what the callback makes of the name.
\<close>

lemma title_case_ascii:
  assumes "list_all is_ascii s"
  shows "title_case rt s = map to_upper_char (take 1 s) @ map to_lower_char (drop 1 s)"
  using assms by (cases s) (simp_all add: title_case_def toLowerCase_def toUpperCase_def charAt0_def slice1_def)

lemma lower_then_capital_ascii:
  assumes "list_all is_ascii p"
  shows "toUpperCase rt (charAt0 (toLowerCase rt p)) @ slice1 (toLowerCase rt p) = title_case rt p"
proof (cases p)
  case Nil
  then show ?thesis
    by (simp add: title_case_def toLowerCase_def toUpperCase_def charAt0_def slice1_def)
next
  case (Cons c cs)
  with assms have c: "is_ascii c" and cs: "list_all is_ascii cs" by simp_all
  from c have lc: "is_ascii (to_lower_char c)" by (rule is_ascii_to_lower_char)
  from c cs lc show ?thesis
    by (simp add: Cons title_case_def toLowerCase_def toUpperCase_def charAt0_def slice1_def
        to_upper_lower_char)
qed

text \<open>
  C9, amended. On a list of provider names \<^verbatim>\<open>parseSocialProviders\<close> returns a list of the
  same length, in the same order, nothing dropped or merged: entry \<open>i\<close> of the result is
  made from entry \<open>i\<close> of the input alone, the lower-cased name with its first code unit
  upper-cased. When the names are made of ASCII code units this is the title case of the
  name: the first character upper-cased, all remaining characters lower-cased.
\<close>

theorem parseSocialProviders_title_case:
  "parseSocialProviders rt (JArr (map JStr ps))
     = Inr (JArr (map (\<lambda>p. JStr (toUpperCase rt (charAt0 (toLowerCase rt p)) @ slice1 (toLowerCase rt p))) ps))
   \<and> (list_all (list_all is_ascii) ps \<longrightarrow>
         parseSocialProviders rt (JArr (map JStr ps)) = Inr (JArr (map (\<lambda>p. JStr (title_case rt p)) ps))
         \<and> (\<forall>rs. parseSocialProviders rt (JArr (map JStr ps)) = Inr (JArr rs) \<longrightarrow>
               length rs = length ps \<and> (\<forall>i < length ps. rs ! i = JStr (title_case rt (ps ! i)))))"
proof -
  have general: "parseSocialProviders rt (JArr (map JStr ps))
     = Inr (JArr (map (\<lambda>p. JStr (toUpperCase rt (charAt0 (toLowerCase rt p)) @ slice1 (toLowerCase rt p))) ps))"
    by (simp add: sequenceE_updateProvider)
  have "map (\<lambda>p. JStr (toUpperCase rt (charAt0 (toLowerCase rt p)) @ slice1 (toLowerCase rt p))) ps
          = map (\<lambda>p. JStr (title_case rt p)) ps"
    if "list_all (list_all is_ascii) ps"
    using that by (induction ps) (simp_all add: lower_then_capital_ascii)
  with general show ?thesis by simp
qed

text \<open>The list of the specification, and a list with a repeated entry.\<close>

theorem parseSocialProviders_title_case_witness:
  "list_all (list_all is_ascii) [''GOOGLE'', ''FACEBOOK'']
   \<and> parseSocialProviders example_runtime (JArr [JStr ''GOOGLE'', JStr ''FACEBOOK''])
     = Inr (JArr [JStr ''Google'', JStr ''Facebook''])
   \<and> list_all (list_all is_ascii) [''gOOGLE'', ''gOOGLE'']
   \<and> parseSocialProviders example_runtime (JArr [JStr ''gOOGLE'', JStr ''gOOGLE''])
     = Inr (JArr [JStr ''Google'', JStr ''Google''])"
proof -
  have a: "list_all (list_all is_ascii) [''GOOGLE'', ''FACEBOOK'']"
    and b: "list_all (list_all is_ascii) [''gOOGLE'', ''gOOGLE'']"
    by (simp_all add: is_ascii_def)
  have t: "title_case example_runtime ''GOOGLE'' = ''Google''"
    "title_case example_runtime ''FACEBOOK'' = ''Facebook''"
    "title_case example_runtime ''gOOGLE'' = ''Google''"
    by code_simp+
  from parseSocialProviders_title_case [of example_runtime "[''GOOGLE'', ''FACEBOOK'']"] a
  have "parseSocialProviders example_runtime (JArr (map JStr [''GOOGLE'', ''FACEBOOK'']))
          = Inr (JArr (map (\<lambda>p. JStr (title_case example_runtime p)) [''GOOGLE'', ''FACEBOOK'']))"
    by (elim conjE impE)
  moreover
  from parseSocialProviders_title_case [of example_runtime "[''gOOGLE'', ''gOOGLE'']"] b
  have "parseSocialProviders example_runtime (JArr (map JStr [''gOOGLE'', ''gOOGLE'']))
          = Inr (JArr (map (\<lambda>p. JStr (title_case example_runtime p)) [''gOOGLE'', ''gOOGLE'']))"
    by (elim conjE impE)
  ultimately show ?thesis
    using a b t by simp
qed

text \<open>
  Any runtime that has the special casing of \<^verbatim>\<open>U+0130\<close>, whichever characters stand for the
  letter and for the combining dot, makes \<^verbatim>\<open>I\<close> and the dot of the one-letter name, which is
  its own title case.
\<close>

lemma special_casing_not_title_case:
  assumes "\<not> is_ascii c" and "lower_case rt [c] = [CHR ''i'', d]" and "upper_case rt [c] = [c]"
  shows "parseSocialProviders rt (JArr [JStr [c]]) = Inr (JArr [JStr [CHR ''I'', d]])"
    and "title_case rt [c] = [c]"
proof -
  have "is_ascii CHR ''i''" by (simp add: is_ascii_def)
  moreover have "to_upper_char CHR ''i'' = CHR ''I''"
    by (simp add: to_upper_char_def upper_letters_def lower_letters_def)
  ultimately show "parseSocialProviders rt (JArr [JStr [c]]) = Inr (JArr [JStr [CHR ''I'', d]])"
    using assms by (simp add: updateProvider_def toLowerCase_def toUpperCase_def charAt0_def slice1_def)
  from assms show "title_case rt [c] = [c]"
    by (simp add: title_case_def toLowerCase_def toUpperCase_def charAt0_def slice1_def)
qed

text \<open>
  C9, as stated, fails outside ASCII. The name that is the one letter
  \<^verbatim>\<open>U+0130\<close> becomes \<^verbatim>\<open>I\<close> followed by the combining dot: lower-casing makes two code units of
  the letter, and only the first of them, \<^verbatim>\<open>i\<close>, is upper-cased. The title case of the name
  is the name itself, since upper-casing leaves the letter as it is.
\<close>

theorem parseSocialProviders_title_case_counterexample:
  "parseSocialProviders example_runtime (JArr [JStr [capital_i_dot_above]])
     = Inr (JArr [JStr [CHR ''I'', combining_dot_above]])
   \<and> title_case example_runtime [capital_i_dot_above] = [capital_i_dot_above]
   \<and> parseSocialProviders example_runtime (JArr [JStr [capital_i_dot_above]])
     \<noteq> Inr (JArr [JStr (title_case example_runtime [capital_i_dot_above])])"
  by code_simp

section \<open>Objects and the sections one by one\<close>

lemma map_of_set_prop: "map_of (set_prop kvs k v) = (map_of kvs)(k \<mapsto> v)"
  by (induction kvs) auto

lemma keys_set_prop: "fst ` set (set_prop kvs k v) = insert k (fst ` set kvs)"
  by (simp add: dom_map_of_conv_image_fst [symmetric] map_of_set_prop)

lemma set_prop_twice: "set_prop (set_prop kvs k v) k w = set_prop kvs k w"
  by (induction kvs) auto

lemma obj_get_set_prop: "obj_get (set_prop kvs k v) k = v"
  by (simp add: obj_get_def map_of_set_prop)



lemma parse_interactions_Inr:
  assumes "parse_interactions config ac = Inr ac'"
  shows "\<exists>v. ac' = (if is_array (prop_of config ''aws_bots_config'') then set_prop ac ''Interactions'' v else ac)"
  using assms
  by (cases "prop_of config ''aws_bots_config''") (auto simp: parse_interactions_def bindE_eq_Inr)

lemma parse_auth_Inr:
  assumes "parse_auth rt config ac = Inr ac'"
  shows "\<exists>ua mfa pf e p.
           includes_or_false (prop_of config ''aws_cognito_username_attributes'') ''EMAIL'' = Inr e
         \<and> includes_or_false (prop_of config ''aws_cognito_username_attributes'') ''PHONE_NUMBER'' = Inr p
         \<and> ac' = (if truthy (prop_of config ''aws_cognito_identity_pool_id'')
                      \<or> truthy (prop_of config ''aws_user_pools_id'')
                   then set_prop ac ''Auth'' (JObj [(''Cognito'', JObj (cognito config ua mfa pf e p))])
                   else ac)"
proof (cases "truthy (prop_of config ''aws_cognito_identity_pool_id'')
                      \<or> truthy (prop_of config ''aws_user_pools_id'')")
  case True
  with assms show ?thesis
    by (clarsimp simp: parse_auth_def bindE_eq_Inr) blast
next
  case False
  with assms show ?thesis
    by (clarsimp simp: parse_auth_def bindE_eq_Inr)
qed

lemma parse_geo_Inr:
  assumes "parse_geo config ac = Inr ac'"
  shows "\<exists>v. ac' = (if truthy (prop_of config ''geo'') then set_prop ac ''Geo'' v else ac)"
  using assms
  by (auto simp: parse_geo_def Let_def bindE_eq_Inr split: if_splits)

lemma parse_rest_Inr:
  assumes "parse_rest config ac = Inr ac'"
  shows "\<exists>v. ac' = (if truthy (prop_of config ''aws_cloud_logic_custom'')
                     then set_prop ac ''API'' (JObj (set_prop (spread (obj_get ac ''API'')) ''REST'' v))
                     else ac)"
  using assms
  by (auto simp: parse_rest_def Let_def bindE_eq_Inr split: if_splits jsval.splits)

lemma parse_predictions_Inr:
  assumes "parse_predictions config ac = Inr ac'"
  shows "\<exists>v. ac' = (if truthy (prop_of config ''predictions'') then set_prop ac ''Predictions'' v else ac)"
  using assms
  by (auto simp: parse_predictions_def Let_def bindE_eq_Inr split: if_splits)

lemma parse_storage_eq:
  "\<exists>v. parse_storage config ac =
     (if truthy (prop_of config ''aws_user_files_s3_bucket'') then set_prop ac ''Storage'' v else ac)"
  by (auto simp: parse_storage_def Let_def)

lemma bindE_InrE:
  assumes "bindE m f = Inr b"
  obtains a where "m = Inr a" and "f a = Inr b"
  using assms by (auto simp: bindE_eq_Inr)

lemma obj_get_head: "obj_get ((k, v) # kvs) k = v"
  by (simp add: obj_get_def)

lemma assign_in_two:
  "assign_in (set_prop ac k (JObj [(k1, JObj g)])) k [k1, k2] v
     = Inr (set_prop ac k (JObj [(k1, JObj (set_prop g k2 v))]))"
  by (simp add: obj_get_set_prop set_prop_twice obj_get_head)

lemma parse_api_Inr:
  assumes "snd (parse_api config ac) = Inr ac'"
  shows "\<exists>g. ac' = (if truthy (prop_of config ''aws_appsync_graphqlEndpoint'')
                     then set_prop ac ''API'' (JObj [(''GraphQL'', JObj g)]) else ac)"
proof (cases "truthy (prop_of config ''aws_appsync_graphqlEndpoint'')")
  case False
  with assms show ?thesis by (simp add: parse_api_def Let_def)
next
  case True
  show ?thesis
  proof (cases "to_string (prop_of config ''aws_appsync_authenticationType'')")
    case (Inl e)
    with assms True show ?thesis by (simp add: parse_api_def Let_def)
  next
    case (Inr key)
    with assms True show ?thesis
      by (cases "truthy (prop_of config ''modelIntrospection'')")
         (auto simp: parse_api_def Let_def assign_in_two simp del: assign_in.simps)
  qed
qed

lemma getOAuthConfig_keys:
  assumes "getOAuthConfig oauth = Inr oc"
  shows "\<exists>kvs. oc = JObj kvs \<and> map fst kvs = [''domain'', ''scopes'', ''redirectSignIn'', ''redirectSignOut'', ''responseType'']"
  using assms
  by (auto simp: getOAuthConfig_def Let_def bindE_eq_Inr split: if_splits)

lemma keys_assign_all: "fst ` set (assign_all target src) = fst ` set target \<union> fst ` set src"
proof -
  have "fst ` set (fold (\<lambda>(k, v) acc. set_prop acc k v) src target) = fst ` set target \<union> fst ` set src"
    by (induction src arbitrary: target) (simp_all add: keys_set_prop case_prod_beta)
  then show ?thesis by (simp add: assign_all_def)
qed

lemma hasSocialProviderConfig_array:
  "prop_of config ''aws_cognito_social_providers'' = JArr ps \<Longrightarrow>
   hasSocialProviderConfig rt config = Inr (ps \<noteq> [])"
  by (simp add: hasSocialProviderConfig_def Let_def)

lemma parseSocialProviders_Inr: "parseSocialProviders rt v = Inr r \<Longrightarrow> \<exists>ps. v = JArr ps"
  by (cases v) simp_all

lemma parse_oauth_no_auth:
  assumes "map_of ac ''Auth'' = None" and "parse_oauth rt config ac = Inr ac'"
  shows "ac' = ac"
proof -
  have "obj_get ac ''Auth'' = JUndefined"
    using assms(1) by (simp add: obj_get_def object_prototype_def)
  with assms(2) show ?thesis
    by (auto simp: parse_oauth_def bindE_eq_Inr)
qed

lemma parse_oauth_auth:
  assumes auth: "map_of ac ''Auth'' = Some (JObj [(''Cognito'', JObj cog)])"
    and lw: "map_of cog ''loginWith'' = Some (JObj lw)"
    and run: "parse_oauth rt config ac = Inr ac'"
  shows "if hasOAuthConfig config
         then \<exists>oa. ac' = set_prop ac ''Auth''
                     (JObj [(''Cognito'', JObj (set_prop cog ''loginWith''
                        (JObj (set_prop lw ''oauth'' (JObj oa)))))])
                \<and> (''providers'' \<in> fst ` set oa \<longleftrightarrow>
                     (\<exists>ps. prop_of config ''aws_cognito_social_providers'' = JArr ps \<and> ps \<noteq> []))
         else ac' = ac"
proof -
  have g: "obj_get ac ''Auth'' = JObj [(''Cognito'', JObj cog)]"
    using auth by (simp add: obj_get_def)
  have c: "obj_get cog ''loginWith'' = JObj lw"
    using lw by (simp add: obj_get_def)
  have asg: "assign_in ac ''Auth'' [''Cognito'', ''loginWith''] v
        = Inr (set_prop ac ''Auth'' (JObj [(''Cognito'', JObj (set_prop cog ''loginWith'' v))]))" for v
    by (simp add: g obj_get_head)
  show ?thesis
  proof (cases "hasOAuthConfig config")
    case False
    with run show ?thesis by (auto simp: parse_oauth_def bindE_eq_Inr)
  next
    case True
    have gl: "get (prop_of (obj_get ac ''Auth'') ''Cognito'') ''loginWith'' = Inr (JObj lw)"
      by (simp add: g get_def obj_get_head c)
    from run True g gl have r:
      "bindE (hasSocialProviderConfig rt config) (\<lambda>hasSocial.
         bindE (getOAuthConfig (prop_of config ''oauth'')) (\<lambda>oauthConfig.
         bindE (if hasSocial
                then bindE (parseSocialProviders rt (prop_of config ''aws_cognito_social_providers''))
                       (\<lambda>providers. Inr (JObj [(''providers'', providers)]))
                else Inr (JBool False)) (\<lambda>social.
         Inr (set_prop ac ''Auth'' (JObj [(''Cognito'', JObj (set_prop cog ''loginWith''
                  (JObj (set_prop lw ''oauth'' (JObj (assign_all (spread oauthConfig) (spread social)))))))])))))
       = Inr ac'"
      by (simp add: parse_oauth_def asg del: assign_in.simps)
    from r obtain hasSocial where
      hs: "hasSocialProviderConfig rt config = Inr hasSocial"
      and r1: "bindE (getOAuthConfig (prop_of config ''oauth'')) (\<lambda>oauthConfig.
         bindE (if hasSocial
                then bindE (parseSocialProviders rt (prop_of config ''aws_cognito_social_providers''))
                       (\<lambda>providers. Inr (JObj [(''providers'', providers)]))
                else Inr (JBool False)) (\<lambda>social.
         Inr (set_prop ac ''Auth'' (JObj [(''Cognito'', JObj (set_prop cog ''loginWith''
                  (JObj (set_prop lw ''oauth'' (JObj (assign_all (spread oauthConfig) (spread social)))))))]))))
       = Inr ac'"
      by (rule bindE_InrE)
    from r1 obtain oc where
      oc: "getOAuthConfig (prop_of config ''oauth'') = Inr oc"
      and r2: "bindE (if hasSocial
                then bindE (parseSocialProviders rt (prop_of config ''aws_cognito_social_providers''))
                       (\<lambda>providers. Inr (JObj [(''providers'', providers)]))
                else Inr (JBool False)) (\<lambda>social.
         Inr (set_prop ac ''Auth'' (JObj [(''Cognito'', JObj (set_prop cog ''loginWith''
                  (JObj (set_prop lw ''oauth'' (JObj (assign_all (spread oc) (spread social)))))))])))
       = Inr ac'"
      by (rule bindE_InrE)
    from r2 obtain social where
      so: "(if hasSocial
                then bindE (parseSocialProviders rt (prop_of config ''aws_cognito_social_providers''))
                       (\<lambda>providers. Inr (JObj [(''providers'', providers)]))
                else Inr (JBool False)) = Inr social"
      and r3: "Inr (set_prop ac ''Auth'' (JObj [(''Cognito'', JObj (set_prop cog ''loginWith''
                  (JObj (set_prop lw ''oauth'' (JObj (assign_all (spread oc) (spread social)))))))]))
       = (Inr ac' :: error + obj)"
      by (rule bindE_InrE)
    from r3 have ac': "ac' = set_prop ac ''Auth'' (JObj [(''Cognito'', JObj (set_prop cog ''loginWith''
                  (JObj (set_prop lw ''oauth'' (JObj (assign_all (spread oc) (spread social)))))))])"
      by simp
    from getOAuthConfig_keys [OF oc] obtain okvs where
      okvs: "oc = JObj okvs"
        "map fst okvs = [''domain'', ''scopes'', ''redirectSignIn'', ''redirectSignOut'', ''responseType'']"
      by (elim exE conjE)
    have nk: "''providers'' \<notin> fst ` set okvs"
    proof -
      have "fst ` set okvs = set (map fst okvs)" by simp
      then show ?thesis unfolding okvs(2) by simp
    qed
    have pk: "(''providers'' \<in> fst ` set (assign_all (spread oc) (spread social)))
          \<longleftrightarrow> (\<exists>ps. prop_of config ''aws_cognito_social_providers'' = JArr ps \<and> ps \<noteq> [])"
    proof (cases hasSocial)
      case True
      with so obtain r where r: "parseSocialProviders rt (prop_of config ''aws_cognito_social_providers'') = Inr r"
        and s: "social = JObj [(''providers'', r)]"
        by (auto simp: bindE_eq_Inr)
      from parseSocialProviders_Inr [OF r] obtain ps where
        ps: "prop_of config ''aws_cognito_social_providers'' = JArr ps" by blast
      from hasSocialProviderConfig_array [OF ps, of rt] hs True have "ps \<noteq> []" by simp
      with ps s show ?thesis by (simp add: keys_assign_all)
    next
      case False
      with so have s: "social = JBool False" by simp
      have "\<not> (\<exists>ps. prop_of config ''aws_cognito_social_providers'' = JArr ps \<and> ps \<noteq> [])"
      proof
        assume "\<exists>ps. prop_of config ''aws_cognito_social_providers'' = JArr ps \<and> ps \<noteq> []"
        then obtain ps where ps: "prop_of config ''aws_cognito_social_providers'' = JArr ps" "ps \<noteq> []"
          by blast
        from hasSocialProviderConfig_array [OF ps(1), of rt] hs False ps(2) show False by simp
      qed
      with s nk okvs(1) show ?thesis by (simp add: keys_assign_all)
    qed
    have "\<exists>oa. ac' = set_prop ac ''Auth''
                     (JObj [(''Cognito'', JObj (set_prop cog ''loginWith''
                        (JObj (set_prop lw ''oauth'' (JObj oa)))))])
                \<and> (''providers'' \<in> fst ` set oa \<longleftrightarrow>
                     (\<exists>ps. prop_of config ''aws_cognito_social_providers'' = JArr ps \<and> ps \<noteq> []))"
      using ac' pk by (intro exI [where x = "assign_all (spread oc) (spread social)"] conjI)
    with True show ?thesis by simp
  qed
qed

lemma parseAWSExports_record:
  "parseAWSExports rt (JObj kvs) =
     (if ''aws_project_region'' \<in> fst ` set kvs
      then (case parse_interactions (JObj kvs) (parse_notifications (JObj kvs) (parse_analytics (JObj kvs) [])) of
              Inl e \<Rightarrow> ([], Inl e)
            | Inr amplifyConfig \<Rightarrow>
                (case parse_api (JObj kvs) amplifyConfig of
                   (logs, Inl e) \<Rightarrow> (logs, Inl e)
                 | (logs, Inr amplifyConfig1) \<Rightarrow>
                     (logs, bindE (parse_rest_of rt (JObj kvs) amplifyConfig1)
                              (\<lambda>amplifyConfig2. Inr (JObj amplifyConfig2)))))
      else ([], Inl invalid_config))"
  by (simp add: parseAWSExports_def Let_def split: bool.splits)

lemma parseAWSExports_sections:
  assumes "snd (parseAWSExports rt (JObj kvs)) = Inr out"
  obtains a3 a4 a5 a6 a8 a9 a10 where
    "''aws_project_region'' \<in> fst ` set kvs"
    "parse_interactions (JObj kvs) (parse_notifications (JObj kvs) (parse_analytics (JObj kvs) [])) = Inr a3"
    "snd (parse_api (JObj kvs) a3) = Inr a4"
    "parse_auth rt (JObj kvs) a4 = Inr a5"
    "parse_oauth rt (JObj kvs) a5 = Inr a6"
    "parse_geo (JObj kvs) (parse_storage (JObj kvs) a6) = Inr a8"
    "parse_rest (JObj kvs) a8 = Inr a9"
    "parse_predictions (JObj kvs) a9 = Inr a10"
    "out = JObj a10"
proof -
  have k: "''aws_project_region'' \<in> fst ` set kvs"
    using assms by (auto simp: parseAWSExports_record split: if_splits)
  with assms obtain a3 where
    a3: "parse_interactions (JObj kvs) (parse_notifications (JObj kvs) (parse_analytics (JObj kvs) [])) = Inr a3"
    by (cases "parse_interactions (JObj kvs) (parse_notifications (JObj kvs) (parse_analytics (JObj kvs) []))")
       (auto simp: parseAWSExports_record)
  obtain logs r4 where p4: "parse_api (JObj kvs) a3 = (logs, r4)"
    by (cases "parse_api (JObj kvs) a3") auto
  with assms k a3 obtain a4 where a4: "r4 = Inr a4"
    by (cases r4) (auto simp: parseAWSExports_record)
  from assms k a3 p4 a4 have r: "bindE (parse_rest_of rt (JObj kvs) a4) (\<lambda>a. Inr (JObj a)) = Inr out"
    by (simp add: parseAWSExports_record)
  then obtain a10 where r10: "parse_rest_of rt (JObj kvs) a4 = Inr a10" and out: "out = JObj a10"
    by (auto elim!: bindE_InrE)
  from r10 obtain a5 where a5: "parse_auth rt (JObj kvs) a4 = Inr a5"
    and r5: "bindE (parse_oauth rt (JObj kvs) a5) (\<lambda>amplifyConfig2.
     bindE (parse_geo (JObj kvs) (parse_storage (JObj kvs) amplifyConfig2)) (\<lambda>amplifyConfig3.
     bindE (parse_rest (JObj kvs) amplifyConfig3) (\<lambda>amplifyConfig4.
     parse_predictions (JObj kvs) amplifyConfig4))) = Inr a10"
    unfolding parse_rest_of_def by (rule bindE_InrE)
  from r5 obtain a6 where a6: "parse_oauth rt (JObj kvs) a5 = Inr a6"
    and r6: "bindE (parse_geo (JObj kvs) (parse_storage (JObj kvs) a6)) (\<lambda>amplifyConfig3.
     bindE (parse_rest (JObj kvs) amplifyConfig3) (\<lambda>amplifyConfig4.
     parse_predictions (JObj kvs) amplifyConfig4)) = Inr a10"
    by (rule bindE_InrE)
  from r6 obtain a8 where a8: "parse_geo (JObj kvs) (parse_storage (JObj kvs) a6) = Inr a8"
    and r8: "bindE (parse_rest (JObj kvs) a8) (\<lambda>amplifyConfig4.
     parse_predictions (JObj kvs) amplifyConfig4) = Inr a10"
    by (rule bindE_InrE)
  from r8 obtain a9 where a9: "parse_rest (JObj kvs) a8 = Inr a9"
    and r9: "parse_predictions (JObj kvs) a9 = Inr a10"
    by (rule bindE_InrE)
  from p4 a4 have s4: "snd (parse_api (JObj kvs) a3) = Inr a4" by simp
  from k a3 s4 a5 a6 a8 a9 r9 out show ?thesis by (rule that)
qed

lemma step_frame:
  "ac' = (if t then set_prop ac K v else ac) \<Longrightarrow> k \<noteq> K \<Longrightarrow> map_of ac' k = map_of ac k"
  by (simp add: map_of_set_prop)

lemma step_key:
  "ac' = (if t then set_prop ac K v else ac) \<Longrightarrow> map_of ac' K = (if t then Some v else map_of ac K)"
  by (simp add: map_of_set_prop)

lemma parse_analytics_step:
  "parse_analytics config ac =
     (if truthy (prop_of config ''aws_mobile_analytics_app_id'')
      then set_prop ac ''Analytics''
             (pinpoint (prop_of config ''aws_mobile_analytics_app_id'')
                (prop_of config ''aws_mobile_analytics_app_region''))
      else ac)"
  by (simp add: parse_analytics_def Let_def)

lemma parse_notifications_step:
  assumes "map_of ac ''Notifications'' = None"
  shows "parse_notifications config ac =
     (if truthy (channel_pinpoint config ''InAppMessaging'') \<or> truthy (channel_pinpoint config ''Push'')
      then set_prop ac ''Notifications''
        (JObj ((if truthy (channel_pinpoint config ''InAppMessaging'')
                then [(''InAppMessaging'',
                       pinpoint (prop_of (channel_pinpoint config ''InAppMessaging'') ''appId'')
                         (prop_of (channel_pinpoint config ''InAppMessaging'') ''region''))]
                else [])
             @ (if truthy (channel_pinpoint config ''Push'')
                then [(''PushNotification'',
                       pinpoint (prop_of (channel_pinpoint config ''Push'') ''appId'')
                         (prop_of (channel_pinpoint config ''Push'') ''region''))]
                else [])))
      else ac)"
proof -
  have u: "obj_get ac ''Notifications'' = JUndefined"
    using assms by (simp add: obj_get_def object_prototype_def)
  show ?thesis
    by (simp add: parse_notifications_def Let_def u obj_get_set_prop set_prop_twice)
qed

lemma parseAWSExports_steps:
  assumes "snd (parseAWSExports rt (JObj kvs)) = Inr out"
  obtains a1 a2 a3 a4 a5 a6 a7 a8 a9 a10 v3 g ua mfa pf e p oa v7 v8 v9 v10 where
    "a1 = (if truthy (prop_of (JObj kvs) ''aws_mobile_analytics_app_id'')
           then set_prop [] ''Analytics''
                  (pinpoint (prop_of (JObj kvs) ''aws_mobile_analytics_app_id'')
                     (prop_of (JObj kvs) ''aws_mobile_analytics_app_region''))
           else [])"
    "a2 = (if truthy (channel_pinpoint (JObj kvs) ''InAppMessaging'') \<or> truthy (channel_pinpoint (JObj kvs) ''Push'')
      then set_prop a1 ''Notifications''
        (JObj ((if truthy (channel_pinpoint (JObj kvs) ''InAppMessaging'')
                then [(''InAppMessaging'',
                       pinpoint (prop_of (channel_pinpoint (JObj kvs) ''InAppMessaging'') ''appId'')
                         (prop_of (channel_pinpoint (JObj kvs) ''InAppMessaging'') ''region''))]
                else [])
             @ (if truthy (channel_pinpoint (JObj kvs) ''Push'')
                then [(''PushNotification'',
                       pinpoint (prop_of (channel_pinpoint (JObj kvs) ''Push'') ''appId'')
                         (prop_of (channel_pinpoint (JObj kvs) ''Push'') ''region''))]
                else [])))
      else a1)"
    "a3 = (if is_array (prop_of (JObj kvs) ''aws_bots_config'') then set_prop a2 ''Interactions'' v3 else a2)"
    "a4 = (if truthy (prop_of (JObj kvs) ''aws_appsync_graphqlEndpoint'')
           then set_prop a3 ''API'' (JObj [(''GraphQL'', JObj g)]) else a3)"
    "includes_or_false (prop_of (JObj kvs) ''aws_cognito_username_attributes'') ''EMAIL'' = Inr e"
    "includes_or_false (prop_of (JObj kvs) ''aws_cognito_username_attributes'') ''PHONE_NUMBER'' = Inr p"
    "a5 = (if truthy (prop_of (JObj kvs) ''aws_cognito_identity_pool_id'')
              \<or> truthy (prop_of (JObj kvs) ''aws_user_pools_id'')
           then set_prop a4 ''Auth'' (JObj [(''Cognito'', JObj (cognito (JObj kvs) ua mfa pf e p))])
           else a4)"
    "a6 = (if (truthy (prop_of (JObj kvs) ''aws_cognito_identity_pool_id'')
              \<or> truthy (prop_of (JObj kvs) ''aws_user_pools_id'')) \<and> hasOAuthConfig (JObj kvs)
           then set_prop a5 ''Auth''
                  (JObj [(''Cognito'', JObj (set_prop (cognito (JObj kvs) ua mfa pf e p) ''loginWith''
                     (JObj [(''username'', JBool (\<not> (e \<or> p))), (''email'', JBool e),
                            (''phone'', JBool p), (''oauth'', JObj oa)])))])
           else a5)"
    "(truthy (prop_of (JObj kvs) ''aws_cognito_identity_pool_id'')
        \<or> truthy (prop_of (JObj kvs) ''aws_user_pools_id'')) \<and> hasOAuthConfig (JObj kvs) \<Longrightarrow>
     ''providers'' \<in> fst ` set oa \<longleftrightarrow>
       (\<exists>ps. prop_of (JObj kvs) ''aws_cognito_social_providers'' = JArr ps \<and> ps \<noteq> [])"
    "a7 = (if truthy (prop_of (JObj kvs) ''aws_user_files_s3_bucket'') then set_prop a6 ''Storage'' v7 else a6)"
    "a8 = (if truthy (prop_of (JObj kvs) ''geo'') then set_prop a7 ''Geo'' v8 else a7)"
    "a9 = (if truthy (prop_of (JObj kvs) ''aws_cloud_logic_custom'')
           then set_prop a8 ''API'' (JObj (set_prop (spread (obj_get a8 ''API'')) ''REST'' v9))
           else a8)"
    "a10 = (if truthy (prop_of (JObj kvs) ''predictions'') then set_prop a9 ''Predictions'' v10 else a9)"
    "out = JObj a10"
proof -
  let ?c = "JObj kvs"
  let ?auth = "truthy (prop_of ?c ''aws_cognito_identity_pool_id'') \<or> truthy (prop_of ?c ''aws_user_pools_id'')"
  obtain a3 a4 a5 a6 a8 a9 a10 where
    "''aws_project_region'' \<in> fst ` set kvs" and
    s3: "parse_interactions ?c (parse_notifications ?c (parse_analytics ?c [])) = Inr a3"
    and s4: "snd (parse_api ?c a3) = Inr a4"
    and s5: "parse_auth rt ?c a4 = Inr a5"
    and s6: "parse_oauth rt ?c a5 = Inr a6"
    and s8: "parse_geo ?c (parse_storage ?c a6) = Inr a8"
    and s9: "parse_rest ?c a8 = Inr a9"
    and s10: "parse_predictions ?c a9 = Inr a10"
    and out: "out = JObj a10"
    by (rule parseAWSExports_sections [OF assms])
  define a1 where "a1 = parse_analytics ?c []"
  define a2 where "a2 = parse_notifications ?c a1"
  define a7 where "a7 = parse_storage ?c a6"
  have e1: "a1 = (if truthy (prop_of (JObj kvs) ''aws_mobile_analytics_app_id'')
           then set_prop [] ''Analytics''
                  (pinpoint (prop_of (JObj kvs) ''aws_mobile_analytics_app_id'')
                     (prop_of (JObj kvs) ''aws_mobile_analytics_app_region''))
           else [])"
    unfolding a1_def by (rule parse_analytics_step)
  have n1: "map_of a1 ''Notifications'' = None"
    using step_frame [OF e1, of "''Notifications''"] by simp
  have e2: "a2 = (if truthy (channel_pinpoint (JObj kvs) ''InAppMessaging'') \<or> truthy (channel_pinpoint (JObj kvs) ''Push'')
      then set_prop a1 ''Notifications''
        (JObj ((if truthy (channel_pinpoint (JObj kvs) ''InAppMessaging'')
                then [(''InAppMessaging'',
                       pinpoint (prop_of (channel_pinpoint (JObj kvs) ''InAppMessaging'') ''appId'')
                         (prop_of (channel_pinpoint (JObj kvs) ''InAppMessaging'') ''region''))]
                else [])
             @ (if truthy (channel_pinpoint (JObj kvs) ''Push'')
                then [(''PushNotification'',
                       pinpoint (prop_of (channel_pinpoint (JObj kvs) ''Push'') ''appId'')
                         (prop_of (channel_pinpoint (JObj kvs) ''Push'') ''region''))]
                else [])))
      else a1)"
    unfolding a2_def by (rule parse_notifications_step [OF n1])
  from s3 have "parse_interactions ?c a2 = Inr a3" by (simp add: a2_def a1_def)
  from parse_interactions_Inr [OF this] obtain v3 where
    e3: "a3 = (if is_array (prop_of ?c ''aws_bots_config'') then set_prop a2 ''Interactions'' v3 else a2)"
    by (elim exE)
  from parse_api_Inr [OF s4] obtain g where
    e4: "a4 = (if truthy (prop_of ?c ''aws_appsync_graphqlEndpoint'')
           then set_prop a3 ''API'' (JObj [(''GraphQL'', JObj g)]) else a3)"
    by (elim exE)
  from parse_auth_Inr [OF s5] obtain ua mfa pf e p where
    ie: "includes_or_false (prop_of ?c ''aws_cognito_username_attributes'') ''EMAIL'' = Inr e"
    and ip: "includes_or_false (prop_of ?c ''aws_cognito_username_attributes'') ''PHONE_NUMBER'' = Inr p"
    and e5: "a5 = (if ?auth
           then set_prop a4 ''Auth'' (JObj [(''Cognito'', JObj (cognito ?c ua mfa pf e p))])
           else a4)"
    by (elim exE conjE)
  have n4: "map_of a4 ''Auth'' = None"
    using step_frame [OF e4, of "''Auth''"] step_frame [OF e3, of "''Auth''"]
      step_frame [OF e2, of "''Auth''"] step_frame [OF e1, of "''Auth''"]
    by simp
  have "\<exists>oa. a6 = (if ?auth \<and> hasOAuthConfig ?c
           then set_prop a5 ''Auth''
                  (JObj [(''Cognito'', JObj (set_prop (cognito ?c ua mfa pf e p) ''loginWith''
                     (JObj [(''username'', JBool (\<not> (e \<or> p))), (''email'', JBool e),
                            (''phone'', JBool p), (''oauth'', JObj oa)])))])
           else a5)
        \<and> (?auth \<and> hasOAuthConfig ?c \<longrightarrow>
            (''providers'' \<in> fst ` set oa \<longleftrightarrow>
             (\<exists>ps. prop_of ?c ''aws_cognito_social_providers'' = JArr ps \<and> ps \<noteq> [])))"
  proof (cases "?auth \<and> hasOAuthConfig ?c")
    case False
    have "a6 = a5"
    proof (cases ?auth)
      case False
      with e5 n4 have "map_of a5 ''Auth'' = None" by simp
      from parse_oauth_no_auth [OF this s6] show ?thesis .
    next
      case True
      with e5 have m5: "map_of a5 ''Auth'' = Some (JObj [(''Cognito'', JObj (cognito ?c ua mfa pf e p))])"
        by (simp add: map_of_set_prop)
      have lw: "map_of (cognito ?c ua mfa pf e p) ''loginWith'' =
                Some (JObj [(''username'', JBool (\<not> (e \<or> p))), (''email'', JBool e), (''phone'', JBool p)])"
        by (simp add: cognito_def)
      from True \<open>\<not> (?auth \<and> hasOAuthConfig ?c)\<close> have "\<not> hasOAuthConfig ?c" by simp
      with parse_oauth_auth [OF m5 lw s6] show ?thesis by simp
    qed
    moreover from False have f: "(?auth \<and> hasOAuthConfig ?c) = False" by simp
    ultimately show ?thesis unfolding f by simp
  next
    case True
    with e5 have m5: "map_of a5 ''Auth'' = Some (JObj [(''Cognito'', JObj (cognito ?c ua mfa pf e p))])"
      by (simp add: map_of_set_prop)
    have lw: "map_of (cognito ?c ua mfa pf e p) ''loginWith'' =
                Some (JObj [(''username'', JBool (\<not> (e \<or> p))), (''email'', JBool e), (''phone'', JBool p)])"
      by (simp add: cognito_def)
    from parse_oauth_auth [OF m5 lw s6] True show ?thesis
      by simp
  qed
  then obtain oa where
    e6: "a6 = (if ?auth \<and> hasOAuthConfig ?c
           then set_prop a5 ''Auth''
                  (JObj [(''Cognito'', JObj (set_prop (cognito ?c ua mfa pf e p) ''loginWith''
                     (JObj [(''username'', JBool (\<not> (e \<or> p))), (''email'', JBool e),
                            (''phone'', JBool p), (''oauth'', JObj oa)])))])
           else a5)"
    and pr': "?auth \<and> hasOAuthConfig ?c \<longrightarrow>
            (''providers'' \<in> fst ` set oa \<longleftrightarrow>
             (\<exists>ps. prop_of ?c ''aws_cognito_social_providers'' = JArr ps \<and> ps \<noteq> []))"
    by (elim exE conjE)
  from pr' have pr: "?auth \<and> hasOAuthConfig ?c \<Longrightarrow>
            (''providers'' \<in> fst ` set oa \<longleftrightarrow>
             (\<exists>ps. prop_of ?c ''aws_cognito_social_providers'' = JArr ps \<and> ps \<noteq> []))"
    by (rule mp)
  from parse_storage_eq [of ?c a6] obtain v7 where
    e7: "a7 = (if truthy (prop_of ?c ''aws_user_files_s3_bucket'') then set_prop a6 ''Storage'' v7 else a6)"
    unfolding a7_def by (elim exE)
  from s8 have "parse_geo ?c a7 = Inr a8" by (simp add: a7_def)
  from parse_geo_Inr [OF this] obtain v8 where
    e8: "a8 = (if truthy (prop_of ?c ''geo'') then set_prop a7 ''Geo'' v8 else a7)"
    by (elim exE)
  from parse_rest_Inr [OF s9] obtain v9 where
    e9: "a9 = (if truthy (prop_of ?c ''aws_cloud_logic_custom'')
           then set_prop a8 ''API'' (JObj (set_prop (spread (obj_get a8 ''API'')) ''REST'' v9))
           else a8)"
    by (elim exE)
  from parse_predictions_Inr [OF s10] obtain v10 where
    e10: "a10 = (if truthy (prop_of ?c ''predictions'') then set_prop a9 ''Predictions'' v10 else a9)"
    by (elim exE)
  from e1 e2 e3 e4 ie ip e5 e6 pr e7 e8 e9 e10 out show ?thesis by (rule that)
qed

section \<open>The returned object\<close>

lemma parseAWSExports_loginWith:
  assumes "snd (parseAWSExports rt (JObj kvs)) = Inr out"
  obtains e p oa where
    "includes_or_false (prop_of (JObj kvs) ''aws_cognito_username_attributes'') ''EMAIL'' = Inr e"
    "includes_or_false (prop_of (JObj kvs) ''aws_cognito_username_attributes'') ''PHONE_NUMBER'' = Inr p"
    "lookup_path out [''Auth'', ''Cognito'', ''loginWith''] =
       (if truthy (prop_of (JObj kvs) ''aws_cognito_identity_pool_id'')
           \<or> truthy (prop_of (JObj kvs) ''aws_user_pools_id'')
        then Some (JObj ([(''username'', JBool (\<not> (e \<or> p))), (''email'', JBool e), (''phone'', JBool p)]
                        @ (if hasOAuthConfig (JObj kvs) then [(''oauth'', JObj oa)] else [])))
        else None)"
    "(truthy (prop_of (JObj kvs) ''aws_cognito_identity_pool_id'')
        \<or> truthy (prop_of (JObj kvs) ''aws_user_pools_id'')) \<and> hasOAuthConfig (JObj kvs) \<Longrightarrow>
     ''providers'' \<in> fst ` set oa \<longleftrightarrow>
       (\<exists>ps. prop_of (JObj kvs) ''aws_cognito_social_providers'' = JArr ps \<and> ps \<noteq> [])"
proof -
  let ?auth = "truthy (prop_of (JObj kvs) ''aws_cognito_identity_pool_id'')
              \<or> truthy (prop_of (JObj kvs) ''aws_user_pools_id'')"
  obtain a1 a2 a3 v3 a4 g e p a5 ua mfa pf a6 oa a7 v7 a8 v8 a9 v9 a10 v10 where
    e1: "a1 = (if truthy (prop_of (JObj kvs) ''aws_mobile_analytics_app_id'')
           then set_prop [] ''Analytics''
                  (pinpoint (prop_of (JObj kvs) ''aws_mobile_analytics_app_id'')
                     (prop_of (JObj kvs) ''aws_mobile_analytics_app_region''))
           else [])"
    and e2: "a2 = (if truthy (channel_pinpoint (JObj kvs) ''InAppMessaging'') \<or> truthy (channel_pinpoint (JObj kvs) ''Push'')
      then set_prop a1 ''Notifications''
        (JObj ((if truthy (channel_pinpoint (JObj kvs) ''InAppMessaging'')
                then [(''InAppMessaging'',
                       pinpoint (prop_of (channel_pinpoint (JObj kvs) ''InAppMessaging'') ''appId'')
                         (prop_of (channel_pinpoint (JObj kvs) ''InAppMessaging'') ''region''))]
                else [])
             @ (if truthy (channel_pinpoint (JObj kvs) ''Push'')
                then [(''PushNotification'',
                       pinpoint (prop_of (channel_pinpoint (JObj kvs) ''Push'') ''appId'')
                         (prop_of (channel_pinpoint (JObj kvs) ''Push'') ''region''))]
                else [])))
      else a1)"
    and e3: "a3 = (if is_array (prop_of (JObj kvs) ''aws_bots_config'') then set_prop a2 ''Interactions'' v3 else a2)"
    and e4: "a4 = (if truthy (prop_of (JObj kvs) ''aws_appsync_graphqlEndpoint'')
           then set_prop a3 ''API'' (JObj [(''GraphQL'', JObj g)]) else a3)"
    and ie: "includes_or_false (prop_of (JObj kvs) ''aws_cognito_username_attributes'') ''EMAIL'' = Inr e"
    and ip: "includes_or_false (prop_of (JObj kvs) ''aws_cognito_username_attributes'') ''PHONE_NUMBER'' = Inr p"
    and e5: "a5 = (if ?auth
           then set_prop a4 ''Auth'' (JObj [(''Cognito'', JObj (cognito (JObj kvs) ua mfa pf e p))])
           else a4)"
    and e6: "a6 = (if ?auth \<and> hasOAuthConfig (JObj kvs)
           then set_prop a5 ''Auth''
                  (JObj [(''Cognito'', JObj (set_prop (cognito (JObj kvs) ua mfa pf e p) ''loginWith''
                     (JObj [(''username'', JBool (\<not> (e \<or> p))), (''email'', JBool e),
                            (''phone'', JBool p), (''oauth'', JObj oa)])))])
           else a5)"
    and pr: "?auth \<and> hasOAuthConfig (JObj kvs) \<Longrightarrow>
     ''providers'' \<in> fst ` set oa \<longleftrightarrow>
       (\<exists>ps. prop_of (JObj kvs) ''aws_cognito_social_providers'' = JArr ps \<and> ps \<noteq> [])"
    and e7: "a7 = (if truthy (prop_of (JObj kvs) ''aws_user_files_s3_bucket'') then set_prop a6 ''Storage'' v7 else a6)"
    and e8: "a8 = (if truthy (prop_of (JObj kvs) ''geo'') then set_prop a7 ''Geo'' v8 else a7)"
    and e9: "a9 = (if truthy (prop_of (JObj kvs) ''aws_cloud_logic_custom'')
           then set_prop a8 ''API'' (JObj (set_prop (spread (obj_get a8 ''API'')) ''REST'' v9))
           else a8)"
    and e10: "a10 = (if truthy (prop_of (JObj kvs) ''predictions'') then set_prop a9 ''Predictions'' v10 else a9)"
    and out: "out = JObj a10"
    by (rule parseAWSExports_steps [OF assms], rule that)
  have n4: "map_of a4 ''Auth'' = None"
    using step_frame [OF e4, of "''Auth''"] step_frame [OF e3, of "''Auth''"]
      step_frame [OF e2, of "''Auth''"] step_frame [OF e1, of "''Auth''"]
    by simp
  have m10: "map_of a10 ''Auth'' = map_of a6 ''Auth''"
    using step_frame [OF e10, of "''Auth''"] step_frame [OF e9, of "''Auth''"]
      step_frame [OF e8, of "''Auth''"] step_frame [OF e7, of "''Auth''"]
    by simp
  have m6: "map_of a6 ''Auth'' =
        (if ?auth
         then Some (JObj [(''Cognito'',
                 JObj (if hasOAuthConfig (JObj kvs)
                       then set_prop (cognito (JObj kvs) ua mfa pf e p) ''loginWith''
                              (JObj [(''username'', JBool (\<not> (e \<or> p))), (''email'', JBool e),
                                     (''phone'', JBool p), (''oauth'', JObj oa)])
                       else cognito (JObj kvs) ua mfa pf e p))])
         else None)"
    using n4 by (simp add: e6 e5 map_of_set_prop)
  have l: "lookup_path out [''Auth'', ''Cognito'', ''loginWith''] =
       (if ?auth
        then Some (JObj ([(''username'', JBool (\<not> (e \<or> p))), (''email'', JBool e), (''phone'', JBool p)]
                        @ (if hasOAuthConfig (JObj kvs) then [(''oauth'', JObj oa)] else [])))
        else None)"
    unfolding out by (simp add: m10 m6 map_of_set_prop) (simp add: cognito_def)
  from ie ip l pr show ?thesis by (rule that)
qed

lemma lookup_path_append:
  "lookup_path v (ks @ ks') = (case lookup_path v ks of Some w \<Rightarrow> lookup_path w ks' | None \<Rightarrow> None)"
  by (induction v ks rule: lookup_path.induct) (simp_all split: option.splits)

lemma lookup_path_loginWith_key:
  "lookup_path out [''Auth'', ''Cognito'', ''loginWith'', k] =
     (case lookup_path out [''Auth'', ''Cognito'', ''loginWith''] of
        Some w \<Rightarrow> lookup_path w [k] | None \<Rightarrow> None)"
  using lookup_path_append [of out "[''Auth'', ''Cognito'', ''loginWith'']" "[k]"] by simp

lemma lookup_path_loginWith_keys:
  "lookup_path out [''Auth'', ''Cognito'', ''loginWith'', k, k'] =
     (case lookup_path out [''Auth'', ''Cognito'', ''loginWith''] of
        Some w \<Rightarrow> lookup_path w [k, k'] | None \<Rightarrow> None)"
  using lookup_path_append [of out "[''Auth'', ''Cognito'', ''loginWith'']" "[k, k']"] by simp

lemma map_of_eq_None_keys: "map_of kvs k = None \<longleftrightarrow> k \<notin> fst ` set kvs"
  by (simp add: map_of_eq_None_iff)

lemma keys_map_of: "k \<in> fst ` set kvs \<longleftrightarrow> map_of kvs k \<noteq> None"
  by (simp add: map_of_eq_None_iff)

section \<open>What the sections can throw\<close>

lemma type_error_only_Inr [type_error_only_intros]: "type_error_only (Inr a)"
  by (simp add: type_error_only_def)

lemma type_error_only_TypeError [type_error_only_intros]: "type_error_only (Inl TypeError)"
  by (simp add: type_error_only_def)

lemma type_error_only_Inl_iff [simp]: "type_error_only (Inl e) \<longleftrightarrow> e = TypeError"
  by (simp add: type_error_only_def)

lemma type_error_only_bindE [type_error_only_intros]:
  "type_error_only m \<Longrightarrow> (\<And>a. type_error_only (f a)) \<Longrightarrow> type_error_only (bindE m f)"
  by (cases m) (simp_all add: type_error_only_def)

lemma type_error_only_if [type_error_only_intros]:
  "type_error_only a \<Longrightarrow> type_error_only b \<Longrightarrow> type_error_only (if c then a else b)"
  by simp

lemma type_error_only_sequenceE:
  "(\<And>x. x \<in> set xs \<Longrightarrow> type_error_only x) \<Longrightarrow> type_error_only (sequenceE xs)"
  by (induction xs) (auto intro!: type_error_only_intros)

lemma type_error_only_sequenceE_map [type_error_only_intros]:
  "(\<And>x. type_error_only (f x)) \<Longrightarrow> type_error_only (sequenceE (map f xs))"
  by (rule type_error_only_sequenceE) auto

lemma type_error_only_reduceE [type_error_only_intros]:
  "(\<And>acc x. type_error_only (f acc x)) \<Longrightarrow> type_error_only (reduceE f xs acc)"
  by (induction xs arbitrary: acc) (auto intro!: type_error_only_intros)

lemma type_error_only_get [type_error_only_intros]: "type_error_only (get v k)"
  by (simp add: get_def type_error_only_intros)

lemma type_error_only_to_string [type_error_only_intros]: "type_error_only (to_string v)"
proof (induction v rule: to_string.induct)
  case (6 xs)
  have "type_error_only (sequenceE (map (\<lambda>x. if nullish x then Inr [] else to_string x) xs))"
    by (rule type_error_only_sequenceE) (auto intro: type_error_only_intros 6)
  then show ?case by (auto intro!: type_error_only_intros)
qed (simp_all add: type_error_only_intros)

lemma type_error_only_call_toLowerCase [type_error_only_intros]: "type_error_only (call_toLowerCase rt v)"
  by (cases v) (simp_all add: type_error_only_intros)

lemma type_error_only_includes_or_false [type_error_only_intros]: "type_error_only (includes_or_false v x)"
  by (cases v) (simp_all add: type_error_only_intros)

lemma type_error_only_iterate_or_empty [type_error_only_intros]: "type_error_only (iterate_or_empty v)"
  by (cases v) (simp_all add: type_error_only_intros)

lemma type_error_only_greater_than_zero [type_error_only_intros]: "type_error_only (greater_than_zero rt v)"
  by (cases v) (auto intro!: type_error_only_intros)

lemma type_error_only_getRedirectUrl [type_error_only_intros]: "type_error_only (getRedirectUrl v)"
  by (cases v) (simp_all add: type_error_only_intros)

lemma type_error_only_getOAuthConfig [type_error_only_intros]: "type_error_only (getOAuthConfig v)"
  by (auto simp: getOAuthConfig_def Let_def intro!: type_error_only_intros)

lemma type_error_only_updateProvider [type_error_only_intros]: "type_error_only (updateProvider rt v)"
  by (auto simp: updateProvider_def intro!: type_error_only_intros)

lemma type_error_only_parseSocialProviders [type_error_only_intros]: "type_error_only (parseSocialProviders rt v)"
  by (cases v) (auto intro!: type_error_only_intros)

lemma type_error_only_assign_in [type_error_only_intros]: "type_error_only (assign_in kvs k ks v)"
  by (induction kvs k ks v rule: assign_in.induct) (auto intro!: type_error_only_intros split: jsval.splits)

lemma type_error_only_parse_interactions [type_error_only_intros]: "type_error_only (parse_interactions config ac)"
  by (auto simp: parse_interactions_def bot_entry_def intro!: type_error_only_intros split: jsval.splits)

lemma type_error_only_parse_api [type_error_only_intros]: "type_error_only (snd (parse_api config ac))"
proof (cases "to_string (prop_of config ''aws_appsync_authenticationType'')")
  case (Inl e)
  with type_error_only_to_string [of "prop_of config ''aws_appsync_authenticationType''"] have "e = TypeError"
    by (simp add: type_error_only_def)
  with Inl show ?thesis by (simp add: parse_api_def Let_def type_error_only_intros)
next
  case (Inr key)
  then show ?thesis by (simp add: parse_api_def Let_def type_error_only_intros del: assign_in.simps)
qed

lemma type_error_only_mfaConfig [type_error_only_intros]: "type_error_only (mfaConfig rt config)"
  by (auto simp: mfaConfig_def Let_def intro!: type_error_only_intros)

lemma type_error_only_passwordFormatConfig [type_error_only_intros]: "type_error_only (passwordFormatConfig config)"
  by (auto simp: passwordFormatConfig_def Let_def intro!: type_error_only_intros)

lemma type_error_only_userAttributes [type_error_only_intros]: "type_error_only (userAttributes rt config)"
  by (auto simp: userAttributes_def mergedUserAttributes_def add_user_attribute_def intro!: type_error_only_intros)

lemma type_error_only_parse_auth [type_error_only_intros]: "type_error_only (parse_auth rt config ac)"
  unfolding parse_auth_def by (intro type_error_only_intros)

lemma type_error_only_hasSocialProviderConfig [type_error_only_intros]: "type_error_only (hasSocialProviderConfig rt config)"
  by (auto simp: hasSocialProviderConfig_def Let_def intro!: type_error_only_intros)

lemma type_error_only_parse_oauth [type_error_only_intros]: "type_error_only (parse_oauth rt config ac)"
  unfolding parse_oauth_def by (intro type_error_only_intros)

lemma type_error_only_parse_geo [type_error_only_intros]: "type_error_only (parse_geo config ac)"
  by (auto simp: parse_geo_def Let_def intro!: type_error_only_intros)

lemma type_error_only_rest_entry [type_error_only_intros]: "type_error_only (rest_entry acc api)"
  by (auto simp: rest_entry_def Let_def intro!: type_error_only_intros)

lemma type_error_only_parse_rest [type_error_only_intros]: "type_error_only (parse_rest config ac)"
  by (auto simp: parse_rest_def Let_def intro!: type_error_only_intros split: jsval.splits)

lemma type_error_only_parse_predictions [type_error_only_intros]: "type_error_only (parse_predictions config ac)"
  by (auto simp: parse_predictions_def Let_def intro!: type_error_only_intros)

lemma type_error_only_parse_rest_of [type_error_only_intros]: "type_error_only (parse_rest_of rt config ac)"
  unfolding parse_rest_of_def by (intro type_error_only_intros)

lemma type_error_only_parseAWSExports:
  assumes "''aws_project_region'' \<in> fst ` set kvs"
  shows "type_error_only (snd (parseAWSExports rt (JObj kvs)))"
proof (cases "parse_interactions (JObj kvs) (parse_notifications (JObj kvs) (parse_analytics (JObj kvs) []))")
  case (Inl e)
  with type_error_only_parse_interactions [of "JObj kvs" "parse_notifications (JObj kvs) (parse_analytics (JObj kvs) [])"]
  show ?thesis using assms by (simp add: parseAWSExports_record)
next
  case (Inr a3)
  obtain logs r4 where p: "parse_api (JObj kvs) a3 = (logs, r4)"
    by (cases "parse_api (JObj kvs) a3")
  show ?thesis
  proof (cases r4)
    case (Inl e)
    with type_error_only_parse_api [of "JObj kvs" a3] p Inr assms show ?thesis
      by (simp add: parseAWSExports_record)
  next
    case r: (Inr a4)
    have "type_error_only (bindE (parse_rest_of rt (JObj kvs) a4) (\<lambda>a. Inr (JObj a)))"
      by (intro type_error_only_intros)
    with p Inr r assms show ?thesis by (simp add: parseAWSExports_record)
  qed
qed


section \<open>When the sections return\<close>



























section \<open>parseAWSExports as a whole\<close>

text \<open>The examples, run.\<close>

lemma run_full: "snd (parseAWSExports example_runtime (JObj config_full)) = Inr output_full"
  by code_simp

lemma run_email: "snd (parseAWSExports example_runtime (JObj config_email)) = Inr output_email"
  by code_simp


subsection \<open>The one check\<close>

text \<open>
  C1. On a record, \<^verbatim>\<open>parseAWSExports\<close> throws its own error exactly when the record has
  no own property \<^verbatim>\<open>aws_project_region\<close>. It then throws at once: nothing is logged and
  nothing is returned, whatever the other fields are. With the key present, whatever its
  value, the error is never an \<^verbatim>\<open>AmplifyError\<close>; a record holding the key alone, with any
  value (\<^verbatim>\<open>undefined\<close>, \<^verbatim>\<open>null\<close>, the empty string, zero), returns the empty object.
\<close>

theorem invalid_config_iff:
  "(snd (parseAWSExports rt (JObj kvs)) = Inl invalid_config
      \<longleftrightarrow> ''aws_project_region'' \<notin> fst ` set kvs)
   \<and> (''aws_project_region'' \<notin> fst ` set kvs \<longrightarrow>
        parseAWSExports rt (JObj kvs) = ([], Inl invalid_config))
   \<and> (\<forall>n m r. snd (parseAWSExports rt (JObj kvs)) = Inl (AmplifyError n m r) \<longrightarrow>
        ''aws_project_region'' \<notin> fst ` set kvs)
   \<and> parseAWSExports rt (JObj [(''aws_project_region'', v)]) = ([], Inr (JObj []))"
proof -
  have a: "''aws_project_region'' \<notin> fst ` set kvs \<longrightarrow>
        parseAWSExports rt (JObj kvs) = ([], Inl invalid_config)"
    by (simp add: parseAWSExports_record)
  have b: "\<forall>n m r. snd (parseAWSExports rt (JObj kvs)) = Inl (AmplifyError n m r) \<longrightarrow>
        ''aws_project_region'' \<notin> fst ` set kvs"
  proof (intro allI impI notI)
    fix n m r
    assume e: "snd (parseAWSExports rt (JObj kvs)) = Inl (AmplifyError n m r)"
      and k: "''aws_project_region'' \<in> fst ` set kvs"
    from type_error_only_parseAWSExports [OF k, of rt] e show False
      by (simp add: type_error_only_def)
  qed
  have c: "snd (parseAWSExports rt (JObj kvs)) = Inl invalid_config
      \<longleftrightarrow> ''aws_project_region'' \<notin> fst ` set kvs"
    using a b by (auto simp: invalid_config_def)
  have d: "parseAWSExports rt (JObj [(''aws_project_region'', v)]) = ([], Inr (JObj []))"
    by (simp add: parseAWSExports_record parse_analytics_def parse_notifications_def
        channel_pinpoint_def opt_get_def parse_interactions_def parse_api_def parse_rest_of_def
        parse_auth_def mfaConfig_def passwordFormatConfig_def userAttributes_def
        mergedUserAttributes_def array_from_set_def parse_oauth_def hasSocialProviderConfig_def
        hasOAuthConfig_def parse_storage_def parse_geo_def parse_rest_def parse_predictions_def
        Let_def obj_get_def object_prototype_def)
  from c a b d show ?thesis by (intro conjI)
qed


text \<open>
  A record without the key whose geo block would make the Geo section throw, the same
  record with the key, and the key alone with the value \<^verbatim>\<open>undefined\<close>.
\<close>

theorem invalid_config_iff_witness:
  "parseAWSExports example_runtime (JObj config_no_region) = ([], Inl invalid_config)
   \<and> snd (parseAWSExports example_runtime (JObj config_geo_empty)) \<noteq> Inl invalid_config
   \<and> parseAWSExports example_runtime (JObj [(''aws_project_region'', JUndefined)]) = ([], Inr (JObj []))"
proof -
  have n: "''aws_project_region'' \<notin> fst ` set config_no_region"
    by (simp add: config_no_region_def)
  have y: "''aws_project_region'' \<in> fst ` set config_geo_empty"
    by (simp add: config_geo_empty_def)
  from invalid_config_iff [of example_runtime config_no_region JUndefined] n
    invalid_config_iff [of example_runtime config_geo_empty JUndefined] y
  show ?thesis by simp
qed

subsection \<open>Returning normally\<close>


text \<open>
  Other fields the sections read without a check: each of these records has the key and
  ends in a \<^verbatim>\<open>TypeError\<close>.
\<close>

lemma unchecked_shapes:
  "snd (parseAWSExports example_runtime
          (JObj [(''aws_project_region'', JStr ''us-east-1''), (''aws_bots_config'', JArr [JNull])]))
     = Inl TypeError"
  "snd (parseAWSExports example_runtime
          (JObj [(''aws_project_region'', JStr ''us-east-1''), (''aws_cognito_mfa_configuration'', JNum 1)]))
     = Inl TypeError"
  "snd (parseAWSExports example_runtime
          (JObj [(''aws_project_region'', JStr ''us-east-1''), (''aws_cognito_mfa_types'', JNum 1),
                 (''aws_cognito_mfa_configuration'', JStr ''ON'')]))
     = Inl TypeError"
  "snd (parseAWSExports example_runtime
          (JObj [(''aws_project_region'', JStr ''us-east-1''),
                 (''aws_cognito_signup_attributes'', JArr [JNum 1])]))
     = Inl TypeError"
  "snd (parseAWSExports example_runtime
          (JObj [(''aws_project_region'', JStr ''us-east-1''),
                 (''aws_cognito_username_attributes'', JBool True)]))
     = Inl TypeError"
  "snd (parseAWSExports example_runtime
          (JObj [(''aws_project_region'', JStr ''us-east-1''),
                 (''aws_user_pools_id'', JStr ''us-east-1_users''),
                 (''oauth'', JObj [(''redirectSignIn'', JArr [JStr ''a''])])]))
     = Inl TypeError"
  "snd (parseAWSExports example_runtime
          (JObj [(''aws_project_region'', JStr ''us-east-1''),
                 (''aws_cloud_logic_custom'', JObj [(''name'', JStr ''api1'')])]))
     = Inl TypeError"
  by code_simp+



subsection \<open>The default authorization mode\<close>

text \<open>
  C3. The lookup \<^verbatim>\<open>authTypeMapping[aws_appsync_authenticationType]\<close> also finds what
  the table inherits from \<^verbatim>\<open>Object.prototype\<close>. For the authentication type
  \<^verbatim>\<open>constructor\<close>, which is not in the table, \<^verbatim>\<open>defaultAuthMode\<close> is the inherited member
  and not \<^verbatim>\<open>iam\<close>, and nothing is logged.
\<close>

theorem defaultAuthMode_inherited_member:
  "parseAWSExports example_runtime (JObj config_auth_constructor) =
     ([], Inr (JObj [(''API'', JObj [(''GraphQL'', JObj
        [(''endpoint'', JStr ''https://example.com/graphql''),
         (''customEndpoint'', JUndefined),
         (''apiKey'', JUndefined),
         (''region'', JUndefined),
         (''defaultAuthMode'', JNative ''constructor'')])])]))"
  by code_simp

text \<open>
  On the keys of the table and on every other string that names no member of
  \<^verbatim>\<open>Object.prototype\<close> the lookup is the table with \<^verbatim>\<open>undefined\<close> as the default.
\<close>

lemma authTypeMapping_lookup:
  "obj_get authTypeMapping ''API_KEY'' = JStr ''apiKey''"
  "obj_get authTypeMapping ''AWS_IAM'' = JStr ''iam''"
  "obj_get authTypeMapping ''AMAZON_COGNITO_USER_POOLS'' = JStr ''userPool''"
  "obj_get authTypeMapping ''OPENID_CONNECT'' = JStr ''oidc''"
  "obj_get authTypeMapping ''NONE'' = JStr ''none''"
  "obj_get authTypeMapping ''AWS_LAMBDA'' = JStr ''lambda''"
  "obj_get authTypeMapping ''LAMBDA'' = JStr ''lambda''"
  "key \<notin> fst ` set authTypeMapping \<Longrightarrow> key \<notin> set object_prototype \<Longrightarrow>
     obj_get authTypeMapping key = JUndefined"
  by (simp_all add: obj_get_def authTypeMapping_def)

subsection \<open>Notifications\<close>

text \<open>
  C5. When \<^verbatim>\<open>parseAWSExports\<close> returns, a truthy in-app-messaging Pinpoint block gives
  \<^verbatim>\<open>Notifications.InAppMessaging.Pinpoint\<close> with that block's \<^verbatim>\<open>appId\<close> and
  \<^verbatim>\<open>region\<close>, whether or not there is a push block, and a truthy push Pinpoint block gives
  \<^verbatim>\<open>Notifications.PushNotification.Pinpoint\<close> with its own \<^verbatim>\<open>appId\<close> and \<^verbatim>\<open>region\<close>;
  with both, \<^verbatim>\<open>Notifications\<close> is the object with exactly these two keys.
\<close>

theorem notifications_both_channels:
  assumes "snd (parseAWSExports rt (JObj kvs)) = Inr out"
  shows "(truthy (channel_pinpoint (JObj kvs) ''InAppMessaging'') \<longrightarrow>
            lookup_path out [''Notifications'', ''InAppMessaging''] =
              Some (pinpoint (prop_of (channel_pinpoint (JObj kvs) ''InAppMessaging'') ''appId'')
                      (prop_of (channel_pinpoint (JObj kvs) ''InAppMessaging'') ''region'')))
       \<and> (truthy (channel_pinpoint (JObj kvs) ''Push'') \<longrightarrow>
            lookup_path out [''Notifications'', ''PushNotification''] =
              Some (pinpoint (prop_of (channel_pinpoint (JObj kvs) ''Push'') ''appId'')
                      (prop_of (channel_pinpoint (JObj kvs) ''Push'') ''region'')))
       \<and> (truthy (channel_pinpoint (JObj kvs) ''InAppMessaging'')
            \<and> truthy (channel_pinpoint (JObj kvs) ''Push'') \<longrightarrow>
            lookup_path out [''Notifications''] =
              Some (JObj
                [(''InAppMessaging'',
                  pinpoint (prop_of (channel_pinpoint (JObj kvs) ''InAppMessaging'') ''appId'')
                    (prop_of (channel_pinpoint (JObj kvs) ''InAppMessaging'') ''region'')),
                 (''PushNotification'',
                  pinpoint (prop_of (channel_pinpoint (JObj kvs) ''Push'') ''appId'')
                    (prop_of (channel_pinpoint (JObj kvs) ''Push'') ''region''))]))"
proof -
  obtain a1 a2 a3 a4 a5 a6 a7 a8 a9 a10 v3 g ua mfa pf e p oa v7 v8 v9 v10 where
    e1: "a1 = (if truthy (prop_of (JObj kvs) ''aws_mobile_analytics_app_id'')
           then set_prop [] ''Analytics''
                  (pinpoint (prop_of (JObj kvs) ''aws_mobile_analytics_app_id'')
                     (prop_of (JObj kvs) ''aws_mobile_analytics_app_region''))
           else [])"
    and e2: "a2 = (if truthy (channel_pinpoint (JObj kvs) ''InAppMessaging'') \<or> truthy (channel_pinpoint (JObj kvs) ''Push'')
      then set_prop a1 ''Notifications''
        (JObj ((if truthy (channel_pinpoint (JObj kvs) ''InAppMessaging'')
                then [(''InAppMessaging'',
                       pinpoint (prop_of (channel_pinpoint (JObj kvs) ''InAppMessaging'') ''appId'')
                         (prop_of (channel_pinpoint (JObj kvs) ''InAppMessaging'') ''region''))]
                else [])
             @ (if truthy (channel_pinpoint (JObj kvs) ''Push'')
                then [(''PushNotification'',
                       pinpoint (prop_of (channel_pinpoint (JObj kvs) ''Push'') ''appId'')
                         (prop_of (channel_pinpoint (JObj kvs) ''Push'') ''region''))]
                else [])))
      else a1)"
    and e3: "a3 = (if is_array (prop_of (JObj kvs) ''aws_bots_config'') then set_prop a2 ''Interactions'' v3 else a2)"
    and e4: "a4 = (if truthy (prop_of (JObj kvs) ''aws_appsync_graphqlEndpoint'')
           then set_prop a3 ''API'' (JObj [(''GraphQL'', JObj g)]) else a3)"
    and ie: "includes_or_false (prop_of (JObj kvs) ''aws_cognito_username_attributes'') ''EMAIL'' = Inr e"
    and ip: "includes_or_false (prop_of (JObj kvs) ''aws_cognito_username_attributes'') ''PHONE_NUMBER'' = Inr p"
    and e5: "a5 = (if truthy (prop_of (JObj kvs) ''aws_cognito_identity_pool_id'')
              \<or> truthy (prop_of (JObj kvs) ''aws_user_pools_id'')
           then set_prop a4 ''Auth'' (JObj [(''Cognito'', JObj (cognito (JObj kvs) ua mfa pf e p))])
           else a4)"
    and e6: "a6 = (if (truthy (prop_of (JObj kvs) ''aws_cognito_identity_pool_id'')
              \<or> truthy (prop_of (JObj kvs) ''aws_user_pools_id'')) \<and> hasOAuthConfig (JObj kvs)
           then set_prop a5 ''Auth''
                  (JObj [(''Cognito'', JObj (set_prop (cognito (JObj kvs) ua mfa pf e p) ''loginWith''
                     (JObj [(''username'', JBool (\<not> (e \<or> p))), (''email'', JBool e),
                            (''phone'', JBool p), (''oauth'', JObj oa)])))])
           else a5)"
    and pr: "(truthy (prop_of (JObj kvs) ''aws_cognito_identity_pool_id'')
        \<or> truthy (prop_of (JObj kvs) ''aws_user_pools_id'')) \<and> hasOAuthConfig (JObj kvs) \<Longrightarrow>
     ''providers'' \<in> fst ` set oa \<longleftrightarrow>
       (\<exists>ps. prop_of (JObj kvs) ''aws_cognito_social_providers'' = JArr ps \<and> ps \<noteq> [])"
    and e7: "a7 = (if truthy (prop_of (JObj kvs) ''aws_user_files_s3_bucket'') then set_prop a6 ''Storage'' v7 else a6)"
    and e8: "a8 = (if truthy (prop_of (JObj kvs) ''geo'') then set_prop a7 ''Geo'' v8 else a7)"
    and e9: "a9 = (if truthy (prop_of (JObj kvs) ''aws_cloud_logic_custom'')
           then set_prop a8 ''API'' (JObj (set_prop (spread (obj_get a8 ''API'')) ''REST'' v9))
           else a8)"
    and e10: "a10 = (if truthy (prop_of (JObj kvs) ''predictions'') then set_prop a9 ''Predictions'' v10 else a9)"
    and out: "out = JObj a10"
    by (rule parseAWSExports_steps [OF assms], rule that)
  have "map_of a10 ''Notifications'' = map_of a2 ''Notifications''"
    using step_frame [OF e10, of "''Notifications''"] step_frame [OF e9, of "''Notifications''"]
      step_frame [OF e8, of "''Notifications''"] step_frame [OF e7, of "''Notifications''"]
      step_frame [OF e6, of "''Notifications''"] step_frame [OF e5, of "''Notifications''"]
      step_frame [OF e4, of "''Notifications''"] step_frame [OF e3, of "''Notifications''"]
    by simp
  with step_key [OF e2] out show ?thesis
    by simp
qed

text \<open>
  The configuration with every section has both blocks.
\<close>

theorem notifications_both_channels_witness:
  "snd (parseAWSExports example_runtime (JObj config_full)) = Inr output_full
   \<and> lookup_path output_full [''Notifications''] =
       Some (JObj
         [(''InAppMessaging'', JObj [(''Pinpoint'', JObj [(''appId'', JStr ''app-2''), (''region'', JStr ''us-east-1'')])]),
          (''PushNotification'', JObj [(''Pinpoint'', JObj [(''appId'', JStr ''app-3''), (''region'', JStr ''us-west-2'')])])])"
proof -
  have a: "channel_pinpoint (JObj config_full) ''InAppMessaging''
             = JObj [(''appId'', JStr ''app-2''), (''region'', JStr ''us-east-1'')]"
    by code_simp
  have b: "channel_pinpoint (JObj config_full) ''Push''
             = JObj [(''appId'', JStr ''app-3''), (''region'', JStr ''us-west-2'')]"
    by code_simp
  from notifications_both_channels [OF run_full] run_full show ?thesis
    by (simp add: a b pinpoint_def obj_get_def object_prototype_def)
qed

subsection \<open>The OAuth block of loginWith\<close>

text \<open>
  C4. When \<^verbatim>\<open>parseAWSExports\<close> returns, \<^verbatim>\<open>Auth.Cognito.loginWith\<close> has the key
  \<^verbatim>\<open>oauth\<close> exactly when the identity pool id or the user pool id is truthy and the
  legacy \<^verbatim>\<open>oauth\<close> value is truthy with at least one own key; \<^verbatim>\<open>oauth\<close> has the key
  \<^verbatim>\<open>providers\<close> exactly when it is there and the social provider list is a non-empty
  list; and whenever there is an Auth section, \<^verbatim>\<open>username\<close>, \<^verbatim>\<open>email\<close> and \<^verbatim>\<open>phone\<close>
  hold what the username attributes give, with or without \<^verbatim>\<open>oauth\<close>.
\<close>

theorem oauth_attached:
  assumes "snd (parseAWSExports rt (JObj kvs)) = Inr out"
  shows "(lookup_path out [''Auth'', ''Cognito'', ''loginWith'', ''oauth''] \<noteq> None \<longleftrightarrow>
            (truthy (prop_of (JObj kvs) ''aws_cognito_identity_pool_id'')
               \<or> truthy (prop_of (JObj kvs) ''aws_user_pools_id''))
            \<and> truthy (prop_of (JObj kvs) ''oauth'')
            \<and> object_keys (prop_of (JObj kvs) ''oauth'') \<noteq> [])
       \<and> (lookup_path out [''Auth'', ''Cognito'', ''loginWith'', ''oauth'', ''providers''] \<noteq> None \<longleftrightarrow>
            lookup_path out [''Auth'', ''Cognito'', ''loginWith'', ''oauth''] \<noteq> None
            \<and> (\<exists>ps. prop_of (JObj kvs) ''aws_cognito_social_providers'' = JArr ps \<and> ps \<noteq> []))
       \<and> (truthy (prop_of (JObj kvs) ''aws_cognito_identity_pool_id'')
             \<or> truthy (prop_of (JObj kvs) ''aws_user_pools_id'') \<longrightarrow>
           (\<exists>e p. includes_or_false (prop_of (JObj kvs) ''aws_cognito_username_attributes'') ''EMAIL'' = Inr e
                \<and> includes_or_false (prop_of (JObj kvs) ''aws_cognito_username_attributes'') ''PHONE_NUMBER'' = Inr p
                \<and> lookup_path out [''Auth'', ''Cognito'', ''loginWith'', ''username''] = Some (JBool (\<not> (e \<or> p)))
                \<and> lookup_path out [''Auth'', ''Cognito'', ''loginWith'', ''email''] = Some (JBool e)
                \<and> lookup_path out [''Auth'', ''Cognito'', ''loginWith'', ''phone''] = Some (JBool p)))"
proof -
  let ?auth = "truthy (prop_of (JObj kvs) ''aws_cognito_identity_pool_id'')
                 \<or> truthy (prop_of (JObj kvs) ''aws_user_pools_id'')"
  obtain e p oa where
    ie: "includes_or_false (prop_of (JObj kvs) ''aws_cognito_username_attributes'') ''EMAIL'' = Inr e"
    and ip: "includes_or_false (prop_of (JObj kvs) ''aws_cognito_username_attributes'') ''PHONE_NUMBER'' = Inr p"
    and l: "lookup_path out [''Auth'', ''Cognito'', ''loginWith''] =
       (if ?auth
        then Some (JObj ([(''username'', JBool (\<not> (e \<or> p))), (''email'', JBool e), (''phone'', JBool p)]
                        @ (if hasOAuthConfig (JObj kvs) then [(''oauth'', JObj oa)] else [])))
        else None)"
    and pr: "?auth \<and> hasOAuthConfig (JObj kvs) \<Longrightarrow>
       ''providers'' \<in> fst ` set oa \<longleftrightarrow>
       (\<exists>ps. prop_of (JObj kvs) ''aws_cognito_social_providers'' = JArr ps \<and> ps \<noteq> [])"
    by (rule parseAWSExports_loginWith [OF assms], rule that)
  have h: "hasOAuthConfig (JObj kvs) \<longleftrightarrow>
             truthy (prop_of (JObj kvs) ''oauth'') \<and> object_keys (prop_of (JObj kvs) ''oauth'') \<noteq> []"
    by (simp add: hasOAuthConfig_def Let_def)
  have o: "lookup_path out [''Auth'', ''Cognito'', ''loginWith'', ''oauth''] =
             (if ?auth \<and> hasOAuthConfig (JObj kvs) then Some (JObj oa) else None)"
    unfolding lookup_path_loginWith_key l by simp
  have c1: "lookup_path out [''Auth'', ''Cognito'', ''loginWith'', ''oauth''] \<noteq> None \<longleftrightarrow>
            ?auth \<and> truthy (prop_of (JObj kvs) ''oauth'')
            \<and> object_keys (prop_of (JObj kvs) ''oauth'') \<noteq> []"
    unfolding o h by simp
  have pl: "lookup_path out [''Auth'', ''Cognito'', ''loginWith'', ''oauth'', ''providers''] =
             (if ?auth \<and> hasOAuthConfig (JObj kvs) then map_of oa ''providers'' else None)"
    unfolding lookup_path_loginWith_keys l by (simp split: option.splits)
  have c2: "lookup_path out [''Auth'', ''Cognito'', ''loginWith'', ''oauth'', ''providers''] \<noteq> None \<longleftrightarrow>
            lookup_path out [''Auth'', ''Cognito'', ''loginWith'', ''oauth''] \<noteq> None
            \<and> (\<exists>ps. prop_of (JObj kvs) ''aws_cognito_social_providers'' = JArr ps \<and> ps \<noteq> [])"
  proof (cases "?auth \<and> hasOAuthConfig (JObj kvs)")
    case True
    from pr [OF True] True show ?thesis
      unfolding pl o by (simp add: map_of_eq_None_keys)
  next
    case False
    then have f: "(?auth \<and> hasOAuthConfig (JObj kvs)) = False" by simp
    show ?thesis unfolding pl o f by simp
  qed
  have c3: "?auth \<longrightarrow>
           (\<exists>e p. includes_or_false (prop_of (JObj kvs) ''aws_cognito_username_attributes'') ''EMAIL'' = Inr e
                \<and> includes_or_false (prop_of (JObj kvs) ''aws_cognito_username_attributes'') ''PHONE_NUMBER'' = Inr p
                \<and> lookup_path out [''Auth'', ''Cognito'', ''loginWith'', ''username''] = Some (JBool (\<not> (e \<or> p)))
                \<and> lookup_path out [''Auth'', ''Cognito'', ''loginWith'', ''email''] = Some (JBool e)
                \<and> lookup_path out [''Auth'', ''Cognito'', ''loginWith'', ''phone''] = Some (JBool p))"
  proof
    assume a: ?auth
    have "lookup_path out [''Auth'', ''Cognito'', ''loginWith'', ''username''] = Some (JBool (\<not> (e \<or> p)))"
      "lookup_path out [''Auth'', ''Cognito'', ''loginWith'', ''email''] = Some (JBool e)"
      "lookup_path out [''Auth'', ''Cognito'', ''loginWith'', ''phone''] = Some (JBool p)"
      unfolding lookup_path_loginWith_key l using a by simp_all
    with ie ip show "\<exists>e p. includes_or_false (prop_of (JObj kvs) ''aws_cognito_username_attributes'') ''EMAIL'' = Inr e
                \<and> includes_or_false (prop_of (JObj kvs) ''aws_cognito_username_attributes'') ''PHONE_NUMBER'' = Inr p
                \<and> lookup_path out [''Auth'', ''Cognito'', ''loginWith'', ''username''] = Some (JBool (\<not> (e \<or> p)))
                \<and> lookup_path out [''Auth'', ''Cognito'', ''loginWith'', ''email''] = Some (JBool e)
                \<and> lookup_path out [''Auth'', ''Cognito'', ''loginWith'', ''phone''] = Some (JBool p)"
      by (intro exI [where x = e] exI [where x = p] conjI)
  qed
  from c1 c2 c3 show ?thesis by (intro conjI)
qed

text \<open>
  The configuration with every section gets \<^verbatim>\<open>oauth\<close> and \<^verbatim>\<open>providers\<close>; the one
  without an oauth block gets neither.
\<close>

theorem oauth_attached_witness:
  "snd (parseAWSExports example_runtime (JObj config_full)) = Inr output_full
   \<and> lookup_path output_full [''Auth'', ''Cognito'', ''loginWith'', ''oauth''] \<noteq> None
   \<and> lookup_path output_full [''Auth'', ''Cognito'', ''loginWith'', ''oauth'', ''providers''] \<noteq> None
   \<and> snd (parseAWSExports example_runtime (JObj config_email)) = Inr output_email
   \<and> lookup_path output_email [''Auth'', ''Cognito'', ''loginWith'', ''oauth''] = None"
proof -
  have t: "truthy (prop_of (JObj config_full) ''aws_cognito_identity_pool_id'')" by code_simp
  have o: "truthy (prop_of (JObj config_full) ''oauth'')" by code_simp
  have k: "object_keys (prop_of (JObj config_full) ''oauth'') \<noteq> []" by code_simp
  have s: "prop_of (JObj config_full) ''aws_cognito_social_providers'' = JArr [JStr ''GOOGLE'', JStr ''FACEBOOK'']"
    by code_simp
  have n: "\<not> truthy (prop_of (JObj config_email) ''oauth'')" by code_simp
  from oauth_attached [OF run_full] t o k s have
    "lookup_path output_full [''Auth'', ''Cognito'', ''loginWith'', ''oauth''] \<noteq> None
     \<and> lookup_path output_full [''Auth'', ''Cognito'', ''loginWith'', ''oauth'', ''providers''] \<noteq> None"
    by simp
  moreover from oauth_attached [OF run_email] n have
    "lookup_path output_email [''Auth'', ''Cognito'', ''loginWith'', ''oauth''] = None"
    by simp
  ultimately show ?thesis using run_full run_email by simp
qed

subsection \<open>The flags of loginWith\<close>

text \<open>
  C6. When \<^verbatim>\<open>parseAWSExports\<close> returns and builds an Auth section, \<^verbatim>\<open>username\<close> is
  true exactly when neither \<^verbatim>\<open>email\<close> nor \<^verbatim>\<open>phone\<close> is; for a username-attributes list
  \<^verbatim>\<open>email\<close> says whether the list contains \<^verbatim>\<open>EMAIL\<close> and \<^verbatim>\<open>phone\<close> whether it contains
  \<^verbatim>\<open>PHONE_NUMBER\<close>; without the list both are false and \<^verbatim>\<open>username\<close> is true. With no
  oauth block attached, \<^verbatim>\<open>loginWith\<close> is exactly these three keys: false, true, false for
  the list holding \<^verbatim>\<open>EMAIL\<close> alone, and true, false, false without the list.
\<close>

theorem loginWith_flags:
  assumes "snd (parseAWSExports rt (JObj kvs)) = Inr out"
    and "truthy (prop_of (JObj kvs) ''aws_cognito_identity_pool_id'')
           \<or> truthy (prop_of (JObj kvs) ''aws_user_pools_id'')"
  shows "(\<exists>e p. lookup_path out [''Auth'', ''Cognito'', ''loginWith'', ''email''] = Some (JBool e)
              \<and> lookup_path out [''Auth'', ''Cognito'', ''loginWith'', ''phone''] = Some (JBool p)
              \<and> lookup_path out [''Auth'', ''Cognito'', ''loginWith'', ''username''] = Some (JBool (\<not> e \<and> \<not> p)))
       \<and> (\<forall>xs. prop_of (JObj kvs) ''aws_cognito_username_attributes'' = JArr xs \<longrightarrow>
              lookup_path out [''Auth'', ''Cognito'', ''loginWith'', ''email''] = Some (JBool (JStr ''EMAIL'' \<in> set xs))
            \<and> lookup_path out [''Auth'', ''Cognito'', ''loginWith'', ''phone'']
                = Some (JBool (JStr ''PHONE_NUMBER'' \<in> set xs)))
       \<and> (nullish (prop_of (JObj kvs) ''aws_cognito_username_attributes'') \<longrightarrow>
              lookup_path out [''Auth'', ''Cognito'', ''loginWith'', ''email''] = Some (JBool False)
            \<and> lookup_path out [''Auth'', ''Cognito'', ''loginWith'', ''phone''] = Some (JBool False)
            \<and> lookup_path out [''Auth'', ''Cognito'', ''loginWith'', ''username''] = Some (JBool True))
       \<and> (prop_of (JObj kvs) ''aws_cognito_username_attributes'' = JArr [JStr ''EMAIL'']
            \<and> \<not> hasOAuthConfig (JObj kvs) \<longrightarrow>
              lookup_path out [''Auth'', ''Cognito'', ''loginWith''] =
                Some (JObj [(''username'', JBool False), (''email'', JBool True), (''phone'', JBool False)]))
       \<and> (nullish (prop_of (JObj kvs) ''aws_cognito_username_attributes'')
            \<and> \<not> hasOAuthConfig (JObj kvs) \<longrightarrow>
              lookup_path out [''Auth'', ''Cognito'', ''loginWith''] =
                Some (JObj [(''username'', JBool True), (''email'', JBool False), (''phone'', JBool False)]))"
proof -
  obtain e p oa where
    ie: "includes_or_false (prop_of (JObj kvs) ''aws_cognito_username_attributes'') ''EMAIL'' = Inr e"
    and ip: "includes_or_false (prop_of (JObj kvs) ''aws_cognito_username_attributes'') ''PHONE_NUMBER'' = Inr p"
    and l0: "lookup_path out [''Auth'', ''Cognito'', ''loginWith''] =
       (if truthy (prop_of (JObj kvs) ''aws_cognito_identity_pool_id'')
           \<or> truthy (prop_of (JObj kvs) ''aws_user_pools_id'')
        then Some (JObj ([(''username'', JBool (\<not> (e \<or> p))), (''email'', JBool e), (''phone'', JBool p)]
                        @ (if hasOAuthConfig (JObj kvs) then [(''oauth'', JObj oa)] else [])))
        else None)"
    by (rule parseAWSExports_loginWith [OF assms(1)], rule that)
  from l0 assms(2) have l: "lookup_path out [''Auth'', ''Cognito'', ''loginWith''] =
        Some (JObj ([(''username'', JBool (\<not> (e \<or> p))), (''email'', JBool e), (''phone'', JBool p)]
                        @ (if hasOAuthConfig (JObj kvs) then [(''oauth'', JObj oa)] else [])))"
    by simp
  have k: "lookup_path out [''Auth'', ''Cognito'', ''loginWith'', ''email''] = Some (JBool e)"
      "lookup_path out [''Auth'', ''Cognito'', ''loginWith'', ''phone''] = Some (JBool p)"
      "lookup_path out [''Auth'', ''Cognito'', ''loginWith'', ''username''] = Some (JBool (\<not> e \<and> \<not> p))"
    unfolding lookup_path_loginWith_key l by simp_all
  have c1: "\<exists>e p. lookup_path out [''Auth'', ''Cognito'', ''loginWith'', ''email''] = Some (JBool e)
              \<and> lookup_path out [''Auth'', ''Cognito'', ''loginWith'', ''phone''] = Some (JBool p)
              \<and> lookup_path out [''Auth'', ''Cognito'', ''loginWith'', ''username''] = Some (JBool (\<not> e \<and> \<not> p))"
    using k by (intro exI [where x = e] exI [where x = p] conjI)
  have c2: "\<forall>xs. prop_of (JObj kvs) ''aws_cognito_username_attributes'' = JArr xs \<longrightarrow>
              lookup_path out [''Auth'', ''Cognito'', ''loginWith'', ''email''] = Some (JBool (JStr ''EMAIL'' \<in> set xs))
            \<and> lookup_path out [''Auth'', ''Cognito'', ''loginWith'', ''phone'']
                = Some (JBool (JStr ''PHONE_NUMBER'' \<in> set xs))"
    using ie ip k by auto
  have c3: "nullish (prop_of (JObj kvs) ''aws_cognito_username_attributes'') \<longrightarrow>
              lookup_path out [''Auth'', ''Cognito'', ''loginWith'', ''email''] = Some (JBool False)
            \<and> lookup_path out [''Auth'', ''Cognito'', ''loginWith'', ''phone''] = Some (JBool False)
            \<and> lookup_path out [''Auth'', ''Cognito'', ''loginWith'', ''username''] = Some (JBool True)"
    using ie ip k by (cases "prop_of (JObj kvs) ''aws_cognito_username_attributes''") auto
  have c4: "prop_of (JObj kvs) ''aws_cognito_username_attributes'' = JArr [JStr ''EMAIL'']
            \<and> \<not> hasOAuthConfig (JObj kvs) \<longrightarrow>
              lookup_path out [''Auth'', ''Cognito'', ''loginWith''] =
                Some (JObj [(''username'', JBool False), (''email'', JBool True), (''phone'', JBool False)])"
    using ie ip l by auto
  have c5: "nullish (prop_of (JObj kvs) ''aws_cognito_username_attributes'')
            \<and> \<not> hasOAuthConfig (JObj kvs) \<longrightarrow>
              lookup_path out [''Auth'', ''Cognito'', ''loginWith''] =
                Some (JObj [(''username'', JBool True), (''email'', JBool False), (''phone'', JBool False)])"
    using ie ip l by (cases "prop_of (JObj kvs) ''aws_cognito_username_attributes''") auto
  from c1 c2 c3 c4 c5 show ?thesis by (intro conjI)
qed

text \<open>
  An identity pool with the username attribute \<^verbatim>\<open>EMAIL\<close>.
\<close>

theorem loginWith_flags_witness:
  "snd (parseAWSExports example_runtime (JObj config_email)) = Inr output_email
   \<and> lookup_path output_email [''Auth'', ''Cognito'', ''loginWith''] =
       Some (JObj [(''username'', JBool False), (''email'', JBool True), (''phone'', JBool False)])"
proof -
  have t: "truthy (prop_of (JObj config_email) ''aws_cognito_identity_pool_id'')
           \<or> truthy (prop_of (JObj config_email) ''aws_user_pools_id'')" by code_simp
  have a: "prop_of (JObj config_email) ''aws_cognito_username_attributes'' = JArr [JStr ''EMAIL'']"
    by code_simp
  have n: "\<not> hasOAuthConfig (JObj config_email)" by code_simp
  from loginWith_flags [OF run_email t] a n run_email show ?thesis by simp
qed

subsection \<open>Which sections are present\<close>

text \<open>
  C7, as stated, fails for the Interactions section: its gate is \<^verbatim>\<open>Array.isArray\<close>, not
  truthiness. A bot configuration that is a single bot object is present and truthy, and
  the result has no section at all.
\<close>

theorem sections_present_counterexample:
  "truthy (prop_of (JObj config_bot_object) ''aws_bots_config'')
   \<and> parseAWSExports example_runtime (JObj config_bot_object) = ([], Inr (JObj []))"
  by code_simp

text \<open>
  C7, amended. A record with the key alone returns the empty object. When
  \<^verbatim>\<open>parseAWSExports\<close> returns, the result has Analytics exactly when the analytics app id
  is truthy, Notifications exactly when the in-app-messaging or the push Pinpoint block is
  truthy, Interactions exactly when the bot configuration is an array, API exactly when
  the GraphQL endpoint or the REST list is truthy, Auth exactly when the identity pool id
  or the user pool id is truthy, Storage exactly when the bucket is truthy, Geo exactly when
  the geo block is truthy, Predictions exactly when the predictions block is truthy, and
  no other key. A section that is not triggered is no key of the result.
\<close>

theorem sections_present:
  "parseAWSExports rt (JObj [(''aws_project_region'', v)]) = ([], Inr (JObj []))
   \<and> (\<forall>out. snd (parseAWSExports rt (JObj kvs)) = Inr out \<longrightarrow>
        (\<exists>sections. out = JObj sections
          \<and> (''Analytics'' \<in> fst ` set sections \<longleftrightarrow>
               truthy (prop_of (JObj kvs) ''aws_mobile_analytics_app_id''))
          \<and> (''Notifications'' \<in> fst ` set sections \<longleftrightarrow>
               truthy (channel_pinpoint (JObj kvs) ''InAppMessaging'')
               \<or> truthy (channel_pinpoint (JObj kvs) ''Push''))
          \<and> (''Interactions'' \<in> fst ` set sections \<longleftrightarrow>
               is_array (prop_of (JObj kvs) ''aws_bots_config''))
          \<and> (''API'' \<in> fst ` set sections \<longleftrightarrow>
               truthy (prop_of (JObj kvs) ''aws_appsync_graphqlEndpoint'')
               \<or> truthy (prop_of (JObj kvs) ''aws_cloud_logic_custom''))
          \<and> (''Auth'' \<in> fst ` set sections \<longleftrightarrow>
               truthy (prop_of (JObj kvs) ''aws_cognito_identity_pool_id'')
               \<or> truthy (prop_of (JObj kvs) ''aws_user_pools_id''))
          \<and> (''Storage'' \<in> fst ` set sections \<longleftrightarrow>
               truthy (prop_of (JObj kvs) ''aws_user_files_s3_bucket''))
          \<and> (''Geo'' \<in> fst ` set sections \<longleftrightarrow> truthy (prop_of (JObj kvs) ''geo''))
          \<and> (''Predictions'' \<in> fst ` set sections \<longleftrightarrow> truthy (prop_of (JObj kvs) ''predictions''))
          \<and> fst ` set sections \<subseteq>
               {''Analytics'', ''Notifications'', ''Interactions'', ''API'', ''Auth'', ''Storage'',
                ''Geo'', ''Predictions''}))"
proof (intro conjI allI impI)
  show "parseAWSExports rt (JObj [(''aws_project_region'', v)]) = ([], Inr (JObj []))"
    by (simp add: parseAWSExports_record parse_analytics_def parse_notifications_def
        channel_pinpoint_def opt_get_def parse_interactions_def parse_api_def parse_rest_of_def
        parse_auth_def mfaConfig_def passwordFormatConfig_def userAttributes_def
        mergedUserAttributes_def array_from_set_def parse_oauth_def hasSocialProviderConfig_def
        hasOAuthConfig_def parse_storage_def parse_geo_def parse_rest_def parse_predictions_def
        Let_def obj_get_def object_prototype_def)
next
  fix out
  assume run: "snd (parseAWSExports rt (JObj kvs)) = Inr out"
  let ?auth = "truthy (prop_of (JObj kvs) ''aws_cognito_identity_pool_id'')
              \<or> truthy (prop_of (JObj kvs) ''aws_user_pools_id'')"
  obtain a1 a2 a3 v3 a4 g e p a5 ua mfa pf a6 oa a7 v7 a8 v8 a9 v9 a10 v10 where
    e1: "a1 = (if truthy (prop_of (JObj kvs) ''aws_mobile_analytics_app_id'')
           then set_prop [] ''Analytics''
                  (pinpoint (prop_of (JObj kvs) ''aws_mobile_analytics_app_id'')
                     (prop_of (JObj kvs) ''aws_mobile_analytics_app_region''))
           else [])"
    and e2: "a2 = (if truthy (channel_pinpoint (JObj kvs) ''InAppMessaging'') \<or> truthy (channel_pinpoint (JObj kvs) ''Push'')
      then set_prop a1 ''Notifications''
        (JObj ((if truthy (channel_pinpoint (JObj kvs) ''InAppMessaging'')
                then [(''InAppMessaging'',
                       pinpoint (prop_of (channel_pinpoint (JObj kvs) ''InAppMessaging'') ''appId'')
                         (prop_of (channel_pinpoint (JObj kvs) ''InAppMessaging'') ''region''))]
                else [])
             @ (if truthy (channel_pinpoint (JObj kvs) ''Push'')
                then [(''PushNotification'',
                       pinpoint (prop_of (channel_pinpoint (JObj kvs) ''Push'') ''appId'')
                         (prop_of (channel_pinpoint (JObj kvs) ''Push'') ''region''))]
                else [])))
      else a1)"
    and e3: "a3 = (if is_array (prop_of (JObj kvs) ''aws_bots_config'') then set_prop a2 ''Interactions'' v3 else a2)"
    and e4: "a4 = (if truthy (prop_of (JObj kvs) ''aws_appsync_graphqlEndpoint'')
           then set_prop a3 ''API'' (JObj [(''GraphQL'', JObj g)]) else a3)"
    and e5: "a5 = (if ?auth
           then set_prop a4 ''Auth'' (JObj [(''Cognito'', JObj (cognito (JObj kvs) ua mfa pf e p))])
           else a4)"
    and e6: "a6 = (if ?auth \<and> hasOAuthConfig (JObj kvs)
           then set_prop a5 ''Auth''
                  (JObj [(''Cognito'', JObj (set_prop (cognito (JObj kvs) ua mfa pf e p) ''loginWith''
                     (JObj [(''username'', JBool (\<not> (e \<or> p))), (''email'', JBool e),
                            (''phone'', JBool p), (''oauth'', JObj oa)])))])
           else a5)"
    and e7: "a7 = (if truthy (prop_of (JObj kvs) ''aws_user_files_s3_bucket'') then set_prop a6 ''Storage'' v7 else a6)"
    and e8: "a8 = (if truthy (prop_of (JObj kvs) ''geo'') then set_prop a7 ''Geo'' v8 else a7)"
    and e9: "a9 = (if truthy (prop_of (JObj kvs) ''aws_cloud_logic_custom'')
           then set_prop a8 ''API'' (JObj (set_prop (spread (obj_get a8 ''API'')) ''REST'' v9))
           else a8)"
    and e10: "a10 = (if truthy (prop_of (JObj kvs) ''predictions'') then set_prop a9 ''Predictions'' v10 else a9)"
    and out: "out = JObj a10"
    by (rule parseAWSExports_steps [OF run], rule that)
  note frames = step_frame [OF e10] step_frame [OF e9] step_frame [OF e8] step_frame [OF e7]
    step_frame [OF e6] step_frame [OF e5] step_frame [OF e4] step_frame [OF e3]
    step_frame [OF e2] step_frame [OF e1]
  have k1: "''Analytics'' \<in> fst ` set a10 \<longleftrightarrow> truthy (prop_of (JObj kvs) ''aws_mobile_analytics_app_id'')"
    unfolding keys_map_of using step_key [OF e1] by (simp add: frames)
  have k2: "''Notifications'' \<in> fst ` set a10 \<longleftrightarrow>
               truthy (channel_pinpoint (JObj kvs) ''InAppMessaging'')
               \<or> truthy (channel_pinpoint (JObj kvs) ''Push'')"
    unfolding keys_map_of using step_key [OF e2] by (simp add: frames)
  have k3: "''Interactions'' \<in> fst ` set a10 \<longleftrightarrow> is_array (prop_of (JObj kvs) ''aws_bots_config'')"
    unfolding keys_map_of using step_key [OF e3] by (simp add: frames)
  have k4: "''API'' \<in> fst ` set a10 \<longleftrightarrow>
               truthy (prop_of (JObj kvs) ''aws_appsync_graphqlEndpoint'')
               \<or> truthy (prop_of (JObj kvs) ''aws_cloud_logic_custom'')"
    unfolding keys_map_of using step_key [OF e4] step_key [OF e9] by (simp add: frames)
  have k5: "''Auth'' \<in> fst ` set a10 \<longleftrightarrow> ?auth"
    unfolding keys_map_of using step_key [OF e5] step_key [OF e6] by (simp add: frames)
  have k6: "''Storage'' \<in> fst ` set a10 \<longleftrightarrow> truthy (prop_of (JObj kvs) ''aws_user_files_s3_bucket'')"
    unfolding keys_map_of using step_key [OF e7] by (simp add: frames)
  have k7: "''Geo'' \<in> fst ` set a10 \<longleftrightarrow> truthy (prop_of (JObj kvs) ''geo'')"
    unfolding keys_map_of using step_key [OF e8] by (simp add: frames)
  have k8: "''Predictions'' \<in> fst ` set a10 \<longleftrightarrow> truthy (prop_of (JObj kvs) ''predictions'')"
    unfolding keys_map_of using step_key [OF e10] by (simp add: frames)
  have k9: "fst ` set a10 \<subseteq>
               {''Analytics'', ''Notifications'', ''Interactions'', ''API'', ''Auth'', ''Storage'',
                ''Geo'', ''Predictions''}"
  proof
    fix k assume "k \<in> fst ` set a10"
    then have m: "map_of a10 k \<noteq> None" by (simp add: keys_map_of)
    show "k \<in> {''Analytics'', ''Notifications'', ''Interactions'', ''API'', ''Auth'', ''Storage'',
                ''Geo'', ''Predictions''}"
    proof (rule ccontr)
      assume "k \<notin> {''Analytics'', ''Notifications'', ''Interactions'', ''API'', ''Auth'', ''Storage'',
                ''Geo'', ''Predictions''}"
      then have n: "k \<noteq> ''Analytics''" "k \<noteq> ''Notifications''" "k \<noteq> ''Interactions''" "k \<noteq> ''API''"
        "k \<noteq> ''Auth''" "k \<noteq> ''Storage''" "k \<noteq> ''Geo''" "k \<noteq> ''Predictions''"
        by simp_all
      have "map_of a10 k = None"
        using step_frame [OF e10 n(8)] step_frame [OF e9 n(4)] step_frame [OF e8 n(7)]
          step_frame [OF e7 n(6)] step_frame [OF e6 n(5)] step_frame [OF e5 n(5)]
          step_frame [OF e4 n(4)] step_frame [OF e3 n(3)] step_frame [OF e2 n(2)]
          step_frame [OF e1 n(1)]
        by simp
      with m show False by simp
    qed
  qed
  from out k1 k2 k3 k4 k5 k6 k7 k8 k9
  show "\<exists>sections. out = JObj sections
          \<and> (''Analytics'' \<in> fst ` set sections \<longleftrightarrow>
               truthy (prop_of (JObj kvs) ''aws_mobile_analytics_app_id''))
          \<and> (''Notifications'' \<in> fst ` set sections \<longleftrightarrow>
               truthy (channel_pinpoint (JObj kvs) ''InAppMessaging'')
               \<or> truthy (channel_pinpoint (JObj kvs) ''Push''))
          \<and> (''Interactions'' \<in> fst ` set sections \<longleftrightarrow>
               is_array (prop_of (JObj kvs) ''aws_bots_config''))
          \<and> (''API'' \<in> fst ` set sections \<longleftrightarrow>
               truthy (prop_of (JObj kvs) ''aws_appsync_graphqlEndpoint'')
               \<or> truthy (prop_of (JObj kvs) ''aws_cloud_logic_custom''))
          \<and> (''Auth'' \<in> fst ` set sections \<longleftrightarrow>
               truthy (prop_of (JObj kvs) ''aws_cognito_identity_pool_id'')
               \<or> truthy (prop_of (JObj kvs) ''aws_user_pools_id''))
          \<and> (''Storage'' \<in> fst ` set sections \<longleftrightarrow>
               truthy (prop_of (JObj kvs) ''aws_user_files_s3_bucket''))
          \<and> (''Geo'' \<in> fst ` set sections \<longleftrightarrow> truthy (prop_of (JObj kvs) ''geo''))
          \<and> (''Predictions'' \<in> fst ` set sections \<longleftrightarrow> truthy (prop_of (JObj kvs) ''predictions''))
          \<and> fst ` set sections \<subseteq>
               {''Analytics'', ''Notifications'', ''Interactions'', ''API'', ''Auth'', ''Storage'',
                ''Geo'', ''Predictions''}"
    by (intro exI [where x = a10] conjI)
qed

text \<open>
  An identity pool alone: Auth is there, Interactions and Geo are not.
\<close>

theorem sections_present_witness:
  "snd (parseAWSExports example_runtime (JObj config_email)) = Inr output_email
   \<and> (\<exists>sections. output_email = JObj sections
         \<and> ''Auth'' \<in> fst ` set sections
         \<and> ''Interactions'' \<notin> fst ` set sections
         \<and> ''Geo'' \<notin> fst ` set sections)"
proof -
  have f: "\<not> is_array (prop_of (JObj config_email) ''aws_bots_config'')"
    "truthy (prop_of (JObj config_email) ''aws_cognito_identity_pool_id'')"
    "\<not> truthy (prop_of (JObj config_email) ''geo'')"
    by code_simp+
  from sections_present [of example_runtime JNull config_email, THEN conjunct2, rule_format, OF run_email]
  obtain sections where s: "output_email = JObj sections"
    and i: "''Interactions'' \<in> fst ` set sections \<longleftrightarrow>
               is_array (prop_of (JObj config_email) ''aws_bots_config'')"
    and a: "''Auth'' \<in> fst ` set sections \<longleftrightarrow>
               truthy (prop_of (JObj config_email) ''aws_cognito_identity_pool_id'')
               \<or> truthy (prop_of (JObj config_email) ''aws_user_pools_id'')"
    and g: "''Geo'' \<in> fst ` set sections \<longleftrightarrow> truthy (prop_of (JObj config_email) ''geo'')"
    by (elim exE conjE)
  from i a g f have "''Auth'' \<in> fst ` set sections \<and> ''Interactions'' \<notin> fst ` set sections
         \<and> ''Geo'' \<notin> fst ` set sections"
    by simp
  with s run_email show ?thesis by (intro conjI exI [where x = sections]) simp_all
qed

end
